theory Spec2Isabelle
  imports Complex_Main "HOL-Library.Multiset" "HOL-Library.Log_Nat"
begin

section \<open>Data model\<close>

text \<open>
  A pandas DataFrame is held column-major, as pandas holds it: a row index (the row
  labels, a RangeIndex after \<^verbatim>\<open>read_csv\<close>) and an ordered list of labelled columns.
  Column labels may repeat; pandas allows that and \<^verbatim>\<open>rename\<close> can produce it.
\<close>

datatype cell = Str string | Num int | NaN

record dataframe =
  index :: "nat list"
  cols :: "(string \<times> cell list) list"

definition columns :: "dataframe \<Rightarrow> string list" where
  "columns df = map fst (cols df)"

definition nrows :: "dataframe \<Rightarrow> nat" where
  "nrows df = length (index df)"

definition wf_dataframe :: "dataframe \<Rightarrow> bool" where
  "wf_dataframe df = list_all (\<lambda>c. length (snd c) = length (index df)) (cols df)"

definition row_cells :: "dataframe \<Rightarrow> nat \<Rightarrow> cell list" where
  "row_cells df i = map (\<lambda>c. snd c ! i) (cols df)"

definition row_at :: "dataframe \<Rightarrow> nat \<Rightarrow> nat \<times> cell list" where
  "row_at df i = (index df ! i, row_cells df i)"

definition rows :: "dataframe \<Rightarrow> (nat \<times> cell list) list" where
  "rows df = map (row_at df) [0..<nrows df]"

section \<open>Exceptions, log and world\<close>

text \<open>
  Every \<^verbatim>\<open>raise\<close> of the program and of the library calls it makes is a value of
  \<open>exn\<close>; a computation returns \<open>Inl e\<close> when it raises \<open>e\<close>. Only subclasses of
  \<^verbatim>\<open>Exception\<close> are modelled, which is what \<^verbatim>\<open>except Exception\<close> catches.
\<close>

datatype exn =
    FileNotFoundError string
  | PermissionError string
  | OSError string
  | YAMLError string
  | ParserError string
  | URLError string
  | KeyError string
  | ValueError string
  | IndexError string

definition py_repr_str :: "string \<Rightarrow> string" where
  "py_repr_str s = [CHR 0x27] @ s @ [CHR 0x27]"

fun py_join :: "string \<Rightarrow> string list \<Rightarrow> string" where
  "py_join sep [] = []"
| "py_join sep [x] = x"
| "py_join sep (x # y # ys) = x @ sep @ py_join sep (y # ys)"

definition py_repr_list :: "string list \<Rightarrow> string" where
  "py_repr_list xs = ''['' @ py_join '', '' (map py_repr_str xs) @ '']''"

text \<open>\<^verbatim>\<open>str(e)\<close>, which is what \<^verbatim>\<open>%s\<close> puts into a log message.\<close>

fun str_exn :: "exn \<Rightarrow> string" where
  "str_exn (FileNotFoundError p) = ''[Errno 2] No such file or directory: '' @ py_repr_str p"
| "str_exn (PermissionError p) = ''[Errno 13] Permission denied: '' @ py_repr_str p"
| "str_exn (OSError m) = m"
| "str_exn (YAMLError m) = m"
| "str_exn (ParserError m) = m"
| "str_exn (URLError m) = m"
| "str_exn (KeyError m) = [CHR 0x22] @ m @ [CHR 0x22]"
| "str_exn (ValueError m) = m"
| "str_exn (IndexError m) = m"

datatype level = DEBUG | ERROR

type_synonym csv_file = "string list \<times> cell list list"

datatype yaml = YNull | YScalar string | YSeq "yaml list" | YMap "(string \<times> yaml) list"

text \<open>
  The world a run changes: the files it writes, the records of the logger
  \<^verbatim>\<open>data_ingestion\<close> (both handlers receive the same records), and the state of
  numpy's global random generator.
\<close>

record 'g world =
  files :: "string \<rightharpoonup> csv_file"
  log :: "(level \<times> string) list"
  np_random :: 'g

text \<open>
  What the run reads from outside and what the libraries decide: the text of local
  files, the YAML parser, \<^verbatim>\<open>pd.read_csv\<close> on a path or URL, whether a directory
  creation or a file write fails, and numpy's generator (seeding and
  \<^verbatim>\<open>permutation\<close>).
\<close>

record 'g env =
  read_text :: "string \<Rightarrow> exn + string"
  yaml_safe_load :: "string \<Rightarrow> exn + yaml"
  read_csv :: "string \<Rightarrow> exn + dataframe"
  makedirs_error :: "string \<Rightarrow> exn option"
  write_error :: "string \<Rightarrow> exn option"
  RandomState :: "int \<Rightarrow> 'g"
  permutation :: "'g \<Rightarrow> nat \<Rightarrow> nat list \<times> 'g"

type_synonym ('g, 'a) io = "'g world \<Rightarrow> (exn + 'a) \<times> 'g world"

definition return_io :: "'a \<Rightarrow> ('g, 'a) io" where
  "return_io x w = (Inr x, w)"

definition raise_io :: "exn \<Rightarrow> ('g, 'a) io" where
  "raise_io e w = (Inl e, w)"

definition lift_io :: "exn + 'a \<Rightarrow> ('g, 'a) io" where
  "lift_io r w = (r, w)"

definition bind_io :: "('g, 'a) io \<Rightarrow> ('a \<Rightarrow> ('g, 'b) io) \<Rightarrow> ('g, 'b) io" where
  "bind_io m f w = (case m w of (Inl e, w') \<Rightarrow> (Inl e, w') | (Inr x, w') \<Rightarrow> f x w')"

text \<open>\<^verbatim>\<open>try: body except Exception as e: handler\<close>\<close>

definition try_except :: "('g, 'a) io \<Rightarrow> (exn \<Rightarrow> ('g, 'a) io) \<Rightarrow> ('g, 'a) io" where
  "try_except body handler w =
     (case body w of (Inl e, w') \<Rightarrow> handler e w' | (Inr x, w') \<Rightarrow> (Inr x, w'))"

definition logger_debug :: "string \<Rightarrow> ('g, unit) io" where
  "logger_debug msg w = (Inr (), w\<lparr>log := log w @ [(DEBUG, msg)]\<rparr>)"

definition logger_error :: "string \<Rightarrow> ('g, unit) io" where
  "logger_error msg w = (Inr (), w\<lparr>log := log w @ [(ERROR, msg)]\<rparr>)"

section \<open>pandas: drop and rename\<close>

text \<open>
  \<^verbatim>\<open>df.drop(columns=labels)\<close> with the default \<^verbatim>\<open>errors='raise'\<close>: a label that is not
  a column raises KeyError; otherwise every column carrying one of the labels goes.
  On a unique axis the message lists the missing labels, on a non-unique one all of
  them.
\<close>

definition drop_columns :: "string list \<Rightarrow> dataframe \<Rightarrow> exn + dataframe" where
  "drop_columns labels df =
     (let axis = columns df;
          missing = filter (\<lambda>l. l \<notin> set axis) labels
      in if missing \<noteq> []
         then Inl (KeyError (py_repr_list (if distinct axis then missing else labels)
                               @ '' not found in axis''))
         else Inr (df\<lparr>cols := filter (\<lambda>c. fst c \<notin> set labels) (cols df)\<rparr>))"

text \<open>
  \<^verbatim>\<open>df.rename(columns=mapping)\<close> with the default \<^verbatim>\<open>errors='ignore'\<close>: a label found
  in the mapping is replaced, any other is kept, and a key of the mapping that is no
  column is skipped silently.
\<close>

definition rename_label :: "(string \<times> string) list \<Rightarrow> string \<Rightarrow> string" where
  "rename_label mapping nm = (case map_of mapping nm of Some nm' \<Rightarrow> nm' | None \<Rightarrow> nm)"

definition rename_columns :: "(string \<times> string) list \<Rightarrow> dataframe \<Rightarrow> dataframe" where
  "rename_columns mapping df =
     df\<lparr>cols := map (\<lambda>c. (rename_label mapping (fst c), snd c)) (cols df)\<rparr>"

section \<open>The stages of data\_ingestion.py\<close>

definition placeholders :: "string list" where
  "placeholders = [''Unnamed: 2'', ''Unnamed: 3'', ''Unnamed: 4'']"

definition renaming :: "(string \<times> string) list" where
  "renaming = [(''v1'', ''target''), (''v2'', ''text'')]"

text \<open>
  Each stage is a \<^verbatim>\<open>try\<close> block and a handler that logs and re-raises; the block
  is named \<open>_body\<close> so that statements can speak of what is raised inside it.
\<close>

definition preprocess_data_body :: "dataframe \<Rightarrow> ('g, dataframe) io" where
  "preprocess_data_body df =
     bind_io (lift_io (drop_columns placeholders df)) (\<lambda>df1.
     bind_io (return_io (rename_columns renaming df1)) (\<lambda>df2.
     bind_io (logger_debug ''Data preprocessing completed'') (\<lambda>_.
     return_io df2)))"

definition preprocess_data :: "dataframe \<Rightarrow> ('g, dataframe) io" where
  "preprocess_data df =
     try_except (preprocess_data_body df)
       (\<lambda>e. bind_io (logger_error (''Error during preprocessing: '' @ str_exn e)) (\<lambda>_.
            raise_io e))"

definition load_params_body :: "'g env \<Rightarrow> string \<Rightarrow> ('g, yaml) io" where
  "load_params_body env params_path =
     bind_io (lift_io (read_text env params_path)) (\<lambda>file.
     bind_io (lift_io (yaml_safe_load env file)) (\<lambda>params.
     bind_io (logger_debug (''Parameters loaded from '' @ params_path)) (\<lambda>_.
     return_io params)))"

definition load_params :: "'g env \<Rightarrow> string \<Rightarrow> ('g, yaml) io" where
  "load_params env params_path =
     try_except (load_params_body env params_path)
       (\<lambda>e. bind_io (logger_error (''Error loading parameters: '' @ str_exn e)) (\<lambda>_.
            raise_io e))"

definition load_data_body :: "'g env \<Rightarrow> string \<Rightarrow> ('g, dataframe) io" where
  "load_data_body env data_url =
     bind_io (lift_io (read_csv env data_url)) (\<lambda>df.
     bind_io (logger_debug (''Data loaded from '' @ data_url)) (\<lambda>_.
     return_io df))"

definition load_data :: "'g env \<Rightarrow> string \<Rightarrow> ('g, dataframe) io" where
  "load_data env data_url =
     try_except (load_data_body env data_url)
       (\<lambda>e. bind_io (logger_error (''Error loading data: '' @ str_exn e)) (\<lambda>_.
            raise_io e))"

section \<open>Double-precision arithmetic of the split sizes\<close>

text \<open>
  A non-negative double is a pair \<open>(m, e)\<close> standing for \<open>m / 2 ^ e\<close>. \<open>round53\<close> rounds
  a numerator to 53 significant bits, ties to even, which is what IEEE 754
  multiplication and the conversion of an integer do to the exact result (neither
  overflow nor subnormals arise for row counts).
\<close>

type_synonym double = "nat \<times> nat"

definition round53 :: "nat \<Rightarrow> nat" where
  "round53 p =
     (let l = floorlog 2 p
      in if l \<le> 53 then p
         else (let k = l - 53; q = p div 2 ^ k; r = p mod 2 ^ k
               in if 2 ^ k < 2 * r \<or> (2 * r = 2 ^ k \<and> odd q)
                  then (q + 1) * 2 ^ k else q * 2 ^ k))"

definition float_of_nat :: "nat \<Rightarrow> double" where
  "float_of_nat n = (round53 n, 0)"

definition float_mul :: "double \<Rightarrow> double \<Rightarrow> double" where
  "float_mul x y = (round53 (fst x * fst y), snd x + snd y)"

definition py_ceil :: "double \<Rightarrow> nat" where
  "py_ceil x = (fst x + 2 ^ snd x - 1) div 2 ^ snd x"

text \<open>The literal \<^verbatim>\<open>0.21\<close>: the double \<^verbatim>\<open>0x1.ae147ae147ae1p-3\<close>.\<close>

definition test_size :: double where
  "test_size = (7566047373982433, 55)"

definition random_state :: int where
  "random_state = 42"

section \<open>scikit-learn: train\_test\_split\<close>

text \<open>
  \<^verbatim>\<open>_validate_shuffle_split\<close> as \<^verbatim>\<open>train_test_split\<close> calls it: a float
  \<^verbatim>\<open>test_size\<close> and no \<^verbatim>\<open>train_size\<close>. The test part is the ceiling of the
  floating-point product, the train part is the rest, and an empty train part is
  refused.
\<close>

definition validate_shuffle_split_float :: "nat \<Rightarrow> double \<Rightarrow> exn + nat \<times> nat" where
  "validate_shuffle_split_float n_samples ts =
     (if fst ts = 0 \<or> 2 ^ snd ts \<le> fst ts
      then Inl (ValueError ''test_size should be a float in the (0, 1) range'')
      else (let n_test = py_ceil (float_mul ts (float_of_nat n_samples));
                n_train = n_samples - n_test
            in if n_train = 0
               then Inl (ValueError ''the resulting train set will be empty'')
               else Inr (n_train, n_test)))"

text \<open>
  The same function as \<^verbatim>\<open>ShuffleSplit\<close> calls it again, with the two integer sizes
  just computed.
\<close>

definition validate_shuffle_split_int :: "nat \<Rightarrow> nat \<Rightarrow> nat \<Rightarrow> exn + nat \<times> nat" where
  "validate_shuffle_split_int n_samples n_test n_train =
     (if n_samples \<le> n_test \<or> n_test = 0
      then Inl (ValueError ''test_size should be positive and smaller than the number of samples'')
      else if n_samples \<le> n_train \<or> n_train = 0
      then Inl (ValueError ''train_size should be positive and smaller than the number of samples'')
      else if n_samples < n_train + n_test
      then Inl (ValueError ''the sum of train_size and test_size should be smaller than the number of samples'')
      else Inr (n_train, n_test))"

text \<open>
  \<^verbatim>\<open>check_random_state(seed).permutation(n)\<close>: an integer seed makes a fresh
  generator and leaves numpy's global one alone; \<^verbatim>\<open>None\<close> draws from the global
  generator and advances it.
\<close>

definition rng_permutation :: "'g env \<Rightarrow> int option \<Rightarrow> nat \<Rightarrow> ('g, nat list) io" where
  "rng_permutation env seed n w =
     (case seed of
        Some s \<Rightarrow> (Inr (fst (permutation env (RandomState env s) n)), w)
      | None \<Rightarrow> (Inr (fst (permutation env (np_random w) n)),
                 w\<lparr>np_random := snd (permutation env (np_random w) n)\<rparr>))"

text \<open>Positional selection of rows (\<^verbatim>\<open>_safe_indexing\<close>, that is \<^verbatim>\<open>iloc\<close>).\<close>

definition iloc :: "dataframe \<Rightarrow> nat list \<Rightarrow> exn + dataframe" where
  "iloc df inds =
     (if list_all (\<lambda>i. i < nrows df) inds
      then Inr \<lparr>index = map (\<lambda>i. index df ! i) inds,
               cols = map (\<lambda>c. (fst c, map (\<lambda>i. snd c ! i) inds)) (cols df)\<rparr>
      else Inl (IndexError ''positional indexers are out-of-bounds''))"

definition train_test_split ::
  "'g env \<Rightarrow> dataframe \<Rightarrow> double \<Rightarrow> int option \<Rightarrow> ('g, dataframe \<times> dataframe) io" where
  "train_test_split env df ts seed =
     bind_io (lift_io (validate_shuffle_split_float (nrows df) ts)) (\<lambda>sizes.
     bind_io (lift_io (validate_shuffle_split_int (nrows df) (snd sizes) (fst sizes))) (\<lambda>sizes'.
     bind_io (rng_permutation env seed (nrows df)) (\<lambda>perm.
     bind_io (lift_io (iloc df (take (fst sizes') (drop (snd sizes') perm)))) (\<lambda>train.
     bind_io (lift_io (iloc df (take (snd sizes') perm))) (\<lambda>test.
     return_io (train, test))))))"

section \<open>Saving and the main pipeline\<close>

definition path_join :: "string \<Rightarrow> string \<Rightarrow> string" where
  "path_join a b = a @ ''/'' @ b"

definition makedirs :: "'g env \<Rightarrow> string \<Rightarrow> ('g, unit) io" where
  "makedirs env p =
     lift_io (case makedirs_error env p of Some e \<Rightarrow> Inl e | None \<Rightarrow> Inr ())"

text \<open>
  \<^verbatim>\<open>df.to_csv(path, index=False)\<close>: the header and the rows without the index. A
  write that fails is taken to fail on opening the file and leaves the file system
  as it was.
\<close>

definition csv_of :: "dataframe \<Rightarrow> csv_file" where
  "csv_of df = (columns df, map (row_cells df) [0..<nrows df])"

definition to_csv :: "'g env \<Rightarrow> dataframe \<Rightarrow> string \<Rightarrow> ('g, unit) io" where
  "to_csv env df path w =
     (case write_error env path of
        Some e \<Rightarrow> (Inl e, w)
      | None \<Rightarrow> (Inr (), w\<lparr>files := (files w)(path \<mapsto> csv_of df)\<rparr>))"

definition raw_data_path :: string where
  "raw_data_path = path_join ''data'' ''raw''"

definition train_csv :: string where
  "train_csv = path_join raw_data_path ''train.csv''"

definition test_csv :: string where
  "test_csv = path_join raw_data_path ''test.csv''"

definition save_data_body :: "'g env \<Rightarrow> dataframe \<Rightarrow> dataframe \<Rightarrow> ('g, unit) io" where
  "save_data_body env train_df test_df =
     bind_io (makedirs env raw_data_path) (\<lambda>_.
     bind_io (to_csv env train_df train_csv) (\<lambda>_.
     bind_io (to_csv env test_df test_csv) (\<lambda>_.
     logger_debug (''Train and test data saved to '' @ raw_data_path))))"

definition save_data :: "'g env \<Rightarrow> dataframe \<Rightarrow> dataframe \<Rightarrow> ('g, unit) io" where
  "save_data env train_df test_df =
     try_except (save_data_body env train_df test_df)
       (\<lambda>e. bind_io (logger_error (''Error saving data: '' @ str_exn e)) (\<lambda>_.
            raise_io e))"

definition source_url :: string where
  "source_url = ''https://raw.githubusercontent.com/vikashishere/Datasets/main/spam.csv''"

definition main_body :: "'g env \<Rightarrow> ('g, unit) io" where
  "main_body env =
     bind_io (load_data env source_url) (\<lambda>df.
     bind_io (preprocess_data df) (\<lambda>df'.
     bind_io (train_test_split env df' test_size (Some random_state)) (\<lambda>parts.
     bind_io (save_data env (fst parts) (snd parts)) (\<lambda>_.
     logger_debug ''Data ingestion pipeline completed successfully''))))"

definition main :: "'g env \<Rightarrow> ('g, unit) io" where
  "main env =
     try_except (main_body env)
       (\<lambda>e. bind_io (logger_error (''Data ingestion failed: '' @ str_exn e)) (\<lambda>_.
            raise_io e))"

text \<open>
  Running the file as a script: an exception that leaves \<^verbatim>\<open>main\<close> ends the
  process with status 1, a normal return with status 0.
\<close>

definition exit_status :: "(exn + unit) \<times> 'g world \<Rightarrow> nat" where
  "exit_status r = (case fst r of Inl e \<Rightarrow> 1 | Inr u \<Rightarrow> 0)"

section \<open>Concrete inputs\<close>

definition spam5 :: dataframe where
  "spam5 = \<lparr>index = [0, 1],
            cols = [(''v1'', [Str ''ham'', Str ''spam'']),
                    (''v2'', [Str ''hi'', Str ''win'']),
                    (''Unnamed: 2'', [NaN, NaN]),
                    (''Unnamed: 3'', [NaN, NaN]),
                    (''Unnamed: 4'', [NaN, NaN])]\<rparr>"

definition spam6 :: dataframe where
  "spam6 = spam5\<lparr>cols := cols spam5 @ [(''extra'', [Num 1, Num 2])]\<rparr>"

definition spam_no_v1 :: dataframe where
  "spam_no_v1 = spam5\<lparr>cols := tl (cols spam5)\<rparr>"

definition spam_no_unnamed4 :: dataframe where
  "spam_no_unnamed4 = spam5\<lparr>cols := butlast (cols spam5)\<rparr>"

definition clean1 :: dataframe where
  "clean1 = \<lparr>index = [0], cols = [(''target'', [Str ''ham'']), (''text'', [Str ''hi''])]\<rparr>"

definition clean5 :: dataframe where
  "clean5 = \<lparr>index = [0, 1, 2, 3, 4],
             cols = [(''target'', [Str ''a'', Str ''b'', Str ''c'', Str ''d'', Str ''e'']),
                     (''text'', [Num 10, Num 11, Num 12, Num 13, Num 14])]\<rparr>"

definition w0 :: "nat world" where
  "w0 = \<lparr>files = Map.empty, log = [], np_random = 0\<rparr>"

text \<open>
  An environment with no local file at all, the source serving \<open>spam5\<close>, every
  write succeeding, and a generator whose permutation reverses the range.
\<close>

definition env0 :: "nat env" where
  "env0 = \<lparr>read_text = (\<lambda>p. Inl (FileNotFoundError p)),
           yaml_safe_load = (\<lambda>t. Inr YNull),
           read_csv = (\<lambda>u. if u = source_url then Inr spam5 else Inl (URLError u)),
           makedirs_error = (\<lambda>p. None),
           write_error = (\<lambda>p. None),
           RandomState = (\<lambda>s. nat \<bar>s\<bar>),
           permutation = (\<lambda>g n. (rev [0..<n], Suc g))\<rparr>"
definition spam1 :: dataframe where
  "spam1 = \<lparr>index = [0],
            cols = [(''v1'', [Str ''ham'']), (''v2'', [Str ''hi'']),
                    (''Unnamed: 2'', [NaN]), (''Unnamed: 3'', [NaN]),
                    (''Unnamed: 4'', [NaN])]\<rparr>"

definition clean2 :: dataframe where
  "clean2 = \<lparr>index = [0, 1],
             cols = [(''target'', [Str ''ham'', Str ''spam'']),
                     (''text'', [Str ''hi'', Str ''win''])]\<rparr>"

definition clean2_train :: dataframe where
  "clean2_train = \<lparr>index = [0], cols = [(''target'', [Str ''ham'']), (''text'', [Str ''hi''])]\<rparr>"

definition clean2_test :: dataframe where
  "clean2_test = \<lparr>index = [1], cols = [(''target'', [Str ''spam'']), (''text'', [Str ''win''])]\<rparr>"

definition w_loaded :: "nat world" where
  "w_loaded = w0\<lparr>log := log w0 @ [(DEBUG, ''Data loaded from '' @ source_url)]\<rparr>"

definition w_preprocessed :: "nat world" where
  "w_preprocessed =
     w_loaded\<lparr>log := log w_loaded @ [(DEBUG, ''Data preprocessing completed'')]\<rparr>"

text \<open>Environments in which one stage of the run fails.\<close>

definition env_parse_error :: "nat env" where
  "env_parse_error = env0\<lparr>read_csv := (\<lambda>u. Inl (ParserError ''Error tokenizing data''))\<rparr>"

definition env_unreachable :: "nat env" where
  "env_unreachable = env0\<lparr>read_csv := (\<lambda>u. Inl (URLError ''urlopen error''))\<rparr>"

definition env_bad_schema :: "nat env" where
  "env_bad_schema = env0\<lparr>read_csv := (\<lambda>u. Inr spam_no_unnamed4)\<rparr>"

definition env_one_row :: "nat env" where
  "env_one_row = env0\<lparr>read_csv := (\<lambda>u. Inr spam1)\<rparr>"

definition env_train_write_fails :: "nat env" where
  "env_train_write_fails =
     env0\<lparr>write_error := (\<lambda>p. if p = train_csv then Some (PermissionError p) else None)\<rparr>"

definition env_test_write_fails :: "nat env" where
  "env_test_write_fails =
     env0\<lparr>write_error := (\<lambda>p. if p = test_csv then Some (PermissionError p) else None)\<rparr>"

text \<open>An environment with a readable configuration file.\<close>

definition env_params :: "nat env" where
  "env_params =
     env0\<lparr>read_text := (\<lambda>p. if p = ''params.yaml'' then Inr ''test_size: 0.2''
                              else Inl (FileNotFoundError p)),
          yaml_safe_load := (\<lambda>t. Inr (YMap [(''test_size'', YScalar ''0.2'')]))\<rparr>"

section \<open>Basic facts about the stages\<close>

lemmas io_defs = return_io_def raise_io_def lift_io_def bind_io_def try_except_def
  logger_debug_def logger_error_def

lemma drop_columns_ok:
  "set labels \<subseteq> set (columns df) \<Longrightarrow>
   drop_columns labels df = Inr (df\<lparr>cols := filter (\<lambda>c. fst c \<notin> set labels) (cols df)\<rparr>)"
  by (auto simp: drop_columns_def Let_def filter_empty_conv)

lemma drop_columns_missing:
  "\<not> set labels \<subseteq> set (columns df) \<Longrightarrow> \<exists>m. drop_columns labels df = Inl (KeyError m)"
  by (auto simp: drop_columns_def Let_def filter_empty_conv)

lemma preprocess_data_ok:
  "set placeholders \<subseteq> set (columns df) \<Longrightarrow>
   preprocess_data df w =
     (Inr (rename_columns renaming
            (df\<lparr>cols := filter (\<lambda>c. fst c \<notin> set placeholders) (cols df)\<rparr>)),
      w\<lparr>log := log w @ [(DEBUG, ''Data preprocessing completed'')]\<rparr>)"
  by (simp add: preprocess_data_def preprocess_data_body_def io_defs drop_columns_ok)

lemma preprocess_data_missing:
  assumes "\<not> set placeholders \<subseteq> set (columns df)"
  shows "\<exists>m. preprocess_data df w =
     (Inl (KeyError m),
      w\<lparr>log := log w @ [(ERROR, ''Error during preprocessing: '' @ str_exn (KeyError m))]\<rparr>)"
proof -
  from drop_columns_missing [OF assms] obtain m
    where "drop_columns placeholders df = Inl (KeyError m)" by blast
  then show ?thesis
    by (simp add: preprocess_data_def preprocess_data_body_def io_defs)
qed

lemma rename_label_renaming:
  "rename_label renaming nm =
     (if nm = ''v1'' then ''target'' else if nm = ''v2'' then ''text'' else nm)"
  by (simp add: rename_label_def renaming_def)

lemma spam5_columns:
  "columns spam5 = [''v1'', ''v2'', ''Unnamed: 2'', ''Unnamed: 3'', ''Unnamed: 4'']"
  by (simp add: spam5_def columns_def)

section \<open>The preprocessor\<close>

text \<open>
  C9. Whenever the three \<^verbatim>\<open>Unnamed\<close> columns are present the preprocessor returns,
  and all it changes is this: the columns carrying one of the three labels are
  gone, \<^verbatim>\<open>v1\<close> is relabelled \<^verbatim>\<open>target\<close> and \<^verbatim>\<open>v2\<close> is relabelled \<^verbatim>\<open>text\<close>. The
  row index, the order of the surviving columns and every cell of them are as in
  the input, so a column with any other label is found unchanged in the output. The
  only effect on the world is one debug record.
\<close>

theorem preprocess_data_frame:
  assumes "set placeholders \<subseteq> set (columns df)"
  shows "\<exists>df'. preprocess_data df w =
            (Inr df', w\<lparr>log := log w @ [(DEBUG, ''Data preprocessing completed'')]\<rparr>)
          \<and> index df' = index df
          \<and> cols df' =
              map (\<lambda>c. (if fst c = ''v1'' then ''target''
                         else if fst c = ''v2'' then ''text'' else fst c, snd c))
                (filter (\<lambda>c. fst c \<notin> {''Unnamed: 2'', ''Unnamed: 3'', ''Unnamed: 4''})
                   (cols df))
          \<and> (\<forall>c \<in> set (cols df).
                fst c \<notin> {''Unnamed: 2'', ''Unnamed: 3'', ''Unnamed: 4'', ''v1'', ''v2''}
                \<longrightarrow> c \<in> set (cols df'))"
proof -
  let ?df' = "rename_columns renaming
                (df\<lparr>cols := filter (\<lambda>c. fst c \<notin> set placeholders) (cols df)\<rparr>)"
  have run: "preprocess_data df w =
      (Inr ?df', w\<lparr>log := log w @ [(DEBUG, ''Data preprocessing completed'')]\<rparr>)"
    by (rule preprocess_data_ok [OF assms])
  have idx: "index ?df' = index df"
    by (simp add: rename_columns_def)
  have cs: "cols ?df' =
      map (\<lambda>c. (if fst c = ''v1'' then ''target''
                 else if fst c = ''v2'' then ''text'' else fst c, snd c))
        (filter (\<lambda>c. fst c \<notin> {''Unnamed: 2'', ''Unnamed: 3'', ''Unnamed: 4''}) (cols df))"
    by (simp add: rename_columns_def rename_label_renaming placeholders_def)
  have keep: "\<forall>c \<in> set (cols df).
      fst c \<notin> {''Unnamed: 2'', ''Unnamed: 3'', ''Unnamed: 4'', ''v1'', ''v2''}
      \<longrightarrow> c \<in> set (cols ?df')"
  proof (intro ballI impI)
    fix c assume c: "c \<in> set (cols df)"
      and n: "fst c \<notin> {''Unnamed: 2'', ''Unnamed: 3'', ''Unnamed: 4'', ''v1'', ''v2''}"
    from c n have "c \<in> set (filter (\<lambda>c. fst c \<notin> {''Unnamed: 2'', ''Unnamed: 3'', ''Unnamed: 4''})
                      (cols df))"
      by simp
    moreover from n have "(if fst c = ''v1'' then ''target''
        else if fst c = ''v2'' then ''text'' else fst c, snd c) = c"
      by simp
    ultimately show "c \<in> set (cols ?df')"
      unfolding cs by (metis (no_types, lifting) image_eqI set_map)
  qed
  from run idx cs keep show ?thesis by blast
qed

theorem preprocess_data_frame_witness:
  "set placeholders \<subseteq> set (columns spam6)
   \<and> (\<exists>df'. preprocess_data spam6 w0 =
            (Inr df', w0\<lparr>log := log w0 @ [(DEBUG, ''Data preprocessing completed'')]\<rparr>)
          \<and> index df' = index spam6
          \<and> cols df' =
              map (\<lambda>c. (if fst c = ''v1'' then ''target''
                         else if fst c = ''v2'' then ''text'' else fst c, snd c))
                (filter (\<lambda>c. fst c \<notin> {''Unnamed: 2'', ''Unnamed: 3'', ''Unnamed: 4''})
                   (cols spam6))
          \<and> (\<forall>c \<in> set (cols spam6).
                fst c \<notin> {''Unnamed: 2'', ''Unnamed: 3'', ''Unnamed: 4'', ''v1'', ''v2''}
                \<longrightarrow> c \<in> set (cols df')))"
proof -
  have h: "set placeholders \<subseteq> set (columns spam6)"
    by (simp add: placeholders_def columns_def spam6_def spam5_def)
  from h preprocess_data_frame [OF h, of w0] show ?thesis by blast
qed
text \<open>
  C1, at an input the claim covers: six columns, among them \<^verbatim>\<open>v1\<close>, \<^verbatim>\<open>v2\<close> and the
  three placeholders. The output has three columns, not two.
\<close>

theorem preprocess_data_six_columns_counterexample:
  "wf_dataframe spam6 \<and> 5 \<le> length (cols spam6)
   \<and> set [''v1'', ''v2'', ''Unnamed: 2'', ''Unnamed: 3'', ''Unnamed: 4''] \<subseteq> set (columns spam6)
   \<and> fst (preprocess_data spam6 w0) =
       Inr \<lparr>index = [0, 1],
            cols = [(''target'', [Str ''ham'', Str ''spam'']),
                    (''text'', [Str ''hi'', Str ''win'']),
                    (''extra'', [Num 1, Num 2])]\<rparr>
   \<and> columns \<lparr>index = [0, 1],
            cols = [(''target'', [Str ''ham'', Str ''spam'']),
                    (''text'', [Str ''hi'', Str ''win'']),
                    (''extra'', [Num 1, Num 2])]\<rparr> \<noteq> [''target'', ''text'']"
proof -
  have h: "set placeholders \<subseteq> set (columns spam6)"
    by (simp add: placeholders_def columns_def spam6_def spam5_def)
  have "rename_columns renaming
          (spam6\<lparr>cols := filter (\<lambda>c. fst c \<notin> set placeholders) (cols spam6)\<rparr>) =
        \<lparr>index = [0, 1],
         cols = [(''target'', [Str ''ham'', Str ''spam'']),
                 (''text'', [Str ''hi'', Str ''win'']),
                 (''extra'', [Num 1, Num 2])]\<rparr>"
    by (simp add: rename_columns_def rename_label_renaming placeholders_def
        spam6_def spam5_def)
  with preprocess_data_ok [OF h, of w0]
  have "fst (preprocess_data spam6 w0) =
       Inr \<lparr>index = [0, 1],
            cols = [(''target'', [Str ''ham'', Str ''spam'']),
                    (''text'', [Str ''hi'', Str ''win'']),
                    (''extra'', [Num 1, Num 2])]\<rparr>"
    by simp
  then show ?thesis
    by (simp add: wf_dataframe_def columns_def spam6_def spam5_def)
qed

text \<open>
  C1 as amended. When the three placeholder columns are present and the columns
  besides them are exactly \<^verbatim>\<open>v1\<close> followed by \<^verbatim>\<open>v2\<close>, the preprocessor returns a
  dataset whose columns are exactly \<^verbatim>\<open>target\<close> and \<^verbatim>\<open>text\<close>, in that order, holding
  the cells of \<^verbatim>\<open>v1\<close> and \<^verbatim>\<open>v2\<close>, with the row index, hence the row count and the
  row order, of the input.
\<close>

theorem preprocess_data_target_text:
  assumes "set placeholders \<subseteq> set (columns df)"
    and "filter (\<lambda>nm. nm \<notin> set placeholders) (columns df) = [''v1'', ''v2'']"
  shows "\<exists>df' c1 c2. fst (preprocess_data df w) = Inr df'
          \<and> columns df' = [''target'', ''text'']
          \<and> (''v1'', c1) \<in> set (cols df) \<and> (''v2'', c2) \<in> set (cols df)
          \<and> cols df' = [(''target'', c1), (''text'', c2)]
          \<and> index df' = index df \<and> nrows df' = nrows df"
proof -
  let ?kept = "filter (\<lambda>c. fst c \<notin> set placeholders) (cols df)"
  let ?df' = "rename_columns renaming (df\<lparr>cols := ?kept\<rparr>)"
  have "map fst ?kept = [''v1'', ''v2'']"
    using assms(2) by (simp add: columns_def filter_map comp_def)
  then obtain c1 c2 where kept: "?kept = [(''v1'', c1), (''v2'', c2)]"
    by (auto simp: map_eq_Cons_conv)
  have "set ?kept \<subseteq> set (cols df)" by auto
  with kept have mem: "(''v1'', c1) \<in> set (cols df)" "(''v2'', c2) \<in> set (cols df)"
    by auto
  have cs: "cols ?df' = [(''target'', c1), (''text'', c2)]"
    by (simp add: rename_columns_def kept rename_label_renaming)
  have "fst (preprocess_data df w) = Inr ?df'"
    by (simp add: preprocess_data_ok [OF assms(1)])
  moreover have "columns ?df' = [''target'', ''text'']"
    by (simp add: columns_def cs)
  moreover have "index ?df' = index df" "nrows ?df' = nrows df"
    by (simp_all add: rename_columns_def nrows_def)
  ultimately show ?thesis using mem cs by blast
qed

theorem preprocess_data_target_text_witness:
  "set placeholders \<subseteq> set (columns spam5)
   \<and> filter (\<lambda>nm. nm \<notin> set placeholders) (columns spam5) = [''v1'', ''v2'']
   \<and> (\<exists>df' c1 c2. fst (preprocess_data spam5 w0) = Inr df'
          \<and> columns df' = [''target'', ''text'']
          \<and> (''v1'', c1) \<in> set (cols spam5) \<and> (''v2'', c2) \<in> set (cols spam5)
          \<and> cols df' = [(''target'', c1), (''text'', c2)]
          \<and> index df' = index spam5 \<and> nrows df' = nrows spam5)"
proof -
  have h1: "set placeholders \<subseteq> set (columns spam5)"
    by (simp add: placeholders_def spam5_columns)
  have h2: "filter (\<lambda>nm. nm \<notin> set placeholders) (columns spam5) = [''v1'', ''v2'']"
    by (simp add: placeholders_def spam5_columns)
  from h1 h2 preprocess_data_target_text [OF h1 h2, of w0] show ?thesis by blast
qed

text \<open>
  C6, at an input the claim covers: \<^verbatim>\<open>v1\<close> is absent, the three placeholders are
  there. The preprocessor returns a dataset and logs no error.
\<close>

theorem preprocess_data_no_v1_counterexample:
  "''v1'' \<notin> set (columns spam_no_v1)
   \<and> preprocess_data spam_no_v1 w0 =
       (Inr \<lparr>index = [0, 1], cols = [(''text'', [Str ''hi'', Str ''win''])]\<rparr>,
        w0\<lparr>log := [(DEBUG, ''Data preprocessing completed'')]\<rparr>)"
proof -
  have h: "set placeholders \<subseteq> set (columns spam_no_v1)"
    by (simp add: placeholders_def columns_def spam_no_v1_def spam5_def)
  have r: "rename_columns renaming
          (spam_no_v1\<lparr>cols := filter (\<lambda>c. fst c \<notin> set placeholders) (cols spam_no_v1)\<rparr>) =
        \<lparr>index = [0, 1], cols = [(''text'', [Str ''hi'', Str ''win''])]\<rparr>"
    by (simp add: rename_columns_def rename_label_renaming placeholders_def
        spam_no_v1_def spam5_def)
  have l: "log w0 = []"
    by (simp add: w0_def)
  have n: "''v1'' \<notin> set (columns spam_no_v1)"
    by (simp add: columns_def spam_no_v1_def spam5_def)
  from preprocess_data_ok [OF h, of w0] r l n show ?thesis
    by simp
qed

text \<open>
  C6 as amended. The preprocessor returns a dataset exactly when the three
  \<^verbatim>\<open>Unnamed\<close> columns are all present, whether or not \<^verbatim>\<open>v1\<close> and \<^verbatim>\<open>v2\<close> are. When
  one of the three is absent it raises the KeyError of \<^verbatim>\<open>drop\<close>, after logging it
  at error level, and returns no dataset.
\<close>

theorem preprocess_data_schema:
  "(set placeholders \<subseteq> set (columns df) \<longrightarrow>
      (\<exists>df'. fst (preprocess_data df w) = Inr df'))
   \<and> (\<not> set placeholders \<subseteq> set (columns df) \<longrightarrow>
      (\<exists>m. preprocess_data df w =
         (Inl (KeyError m),
          w\<lparr>log := log w @
             [(ERROR, ''Error during preprocessing: '' @ str_exn (KeyError m))]\<rparr>)))"
proof (intro conjI impI)
  assume "set placeholders \<subseteq> set (columns df)"
  then show "\<exists>df'. fst (preprocess_data df w) = Inr df'"
    by (simp add: preprocess_data_ok)
next
  assume "\<not> set placeholders \<subseteq> set (columns df)"
  then show "\<exists>m. preprocess_data df w =
         (Inl (KeyError m),
          w\<lparr>log := log w @
             [(ERROR, ''Error during preprocessing: '' @ str_exn (KeyError m))]\<rparr>)"
    by (rule preprocess_data_missing)
qed

theorem preprocess_data_schema_witness:
  "set placeholders \<subseteq> set (columns spam_no_v1)
   \<and> (\<exists>df'. fst (preprocess_data spam_no_v1 w0) = Inr df')
   \<and> \<not> set placeholders \<subseteq> set (columns spam_no_unnamed4)
   \<and> (\<exists>m. preprocess_data spam_no_unnamed4 w0 =
         (Inl (KeyError m),
          w0\<lparr>log := log w0 @
             [(ERROR, ''Error during preprocessing: '' @ str_exn (KeyError m))]\<rparr>))"
proof -
  have h1: "set placeholders \<subseteq> set (columns spam_no_v1)"
    by (simp add: placeholders_def columns_def spam_no_v1_def spam5_def)
  have h2: "\<not> set placeholders \<subseteq> set (columns spam_no_unnamed4)"
    by (simp add: placeholders_def columns_def spam_no_unnamed4_def spam5_def)
  from h1 h2 preprocess_data_schema [of spam_no_v1 w0]
    preprocess_data_schema [of spam_no_unnamed4 w0]
  show ?thesis by blast
qed
section \<open>Stages: logging and re-raising\<close>

lemma bind_io_lift:
  "bind_io (lift_io r) f w = (case r of Inl e \<Rightarrow> (Inl e, w) | Inr x \<Rightarrow> f x w)"
  by (simp add: bind_io_def lift_io_def split: sum.splits)

lemma bind_io_return: "bind_io (return_io x) f w = f x w"
  by (simp add: bind_io_def return_io_def)

lemma bind_io_raised: "m w = (Inl e, w') \<Longrightarrow> bind_io m f w = (Inl e, w')"
  by (simp add: bind_io_def)

lemma bind_io_returned: "m w = (Inr x, w') \<Longrightarrow> bind_io m f w = f x w'"
  by (simp add: bind_io_def)

lemma try_except_reraise:
  "try_except body (\<lambda>e. bind_io (logger_error (p @ str_exn e)) (\<lambda>_. raise_io e)) w =
     (case body w of
        (Inl e, w') \<Rightarrow> (Inl e, w'\<lparr>log := log w' @ [(ERROR, p @ str_exn e)]\<rparr>)
      | (Inr x, w') \<Rightarrow> (Inr x, w'))"
  by (simp add: io_defs split: prod.splits sum.splits)

lemma load_data_run:
  "load_data env u w =
     (case read_csv env u of
        Inl e \<Rightarrow> (Inl e, w\<lparr>log := log w @ [(ERROR, ''Error loading data: '' @ str_exn e)]\<rparr>)
      | Inr df \<Rightarrow> (Inr df, w\<lparr>log := log w @ [(DEBUG, ''Data loaded from '' @ u)]\<rparr>))"
  by (simp add: load_data_def load_data_body_def io_defs split: sum.splits)

lemma load_params_run:
  "load_params env p w =
     (case read_text env p of
        Inl e \<Rightarrow>
          (Inl e, w\<lparr>log := log w @ [(ERROR, ''Error loading parameters: '' @ str_exn e)]\<rparr>)
      | Inr t \<Rightarrow>
          (case yaml_safe_load env t of
             Inl e \<Rightarrow>
               (Inl e, w\<lparr>log := log w @ [(ERROR, ''Error loading parameters: '' @ str_exn e)]\<rparr>)
           | Inr v \<Rightarrow>
               (Inr v, w\<lparr>log := log w @ [(DEBUG, ''Parameters loaded from '' @ p)]\<rparr>)))"
  by (simp add: load_params_def load_params_body_def io_defs split: sum.splits)

lemma preprocess_data_run:
  "preprocess_data df w =
     (case drop_columns placeholders df of
        Inl e \<Rightarrow>
          (Inl e, w\<lparr>log := log w @ [(ERROR, ''Error during preprocessing: '' @ str_exn e)]\<rparr>)
      | Inr df1 \<Rightarrow>
          (Inr (rename_columns renaming df1),
           w\<lparr>log := log w @ [(DEBUG, ''Data preprocessing completed'')]\<rparr>))"
  by (simp add: preprocess_data_def preprocess_data_body_def io_defs split: sum.splits)

lemma save_data_run:
  "save_data env tr te w =
     (case makedirs_error env raw_data_path of
        Some e \<Rightarrow> (Inl e, w\<lparr>log := log w @ [(ERROR, ''Error saving data: '' @ str_exn e)]\<rparr>)
      | None \<Rightarrow>
          (case write_error env train_csv of
             Some e \<Rightarrow>
               (Inl e, w\<lparr>log := log w @ [(ERROR, ''Error saving data: '' @ str_exn e)]\<rparr>)
           | None \<Rightarrow>
               (case write_error env test_csv of
                  Some e \<Rightarrow>
                    (Inl e, w\<lparr>files := (files w)(train_csv \<mapsto> csv_of tr),
                              log := log w @ [(ERROR, ''Error saving data: '' @ str_exn e)]\<rparr>)
                | None \<Rightarrow>
                    (Inr (), w\<lparr>files := (files w)(train_csv \<mapsto> csv_of tr,
                                                   test_csv \<mapsto> csv_of te),
                              log := log w @
                                [(DEBUG, ''Train and test data saved to '' @ raw_data_path)]\<rparr>))))"
  by (simp add: save_data_def save_data_body_def makedirs_def to_csv_def io_defs
      split: option.splits)

lemma bind_io_rng_seeded:
  "bind_io (rng_permutation env (Some s) n) f w =
     f (fst (permutation env (RandomState env s) n)) w"
  by (simp add: bind_io_def rng_permutation_def)

lemma train_test_split_seeded_run:
  "train_test_split env df ts (Some s) w =
     (case validate_shuffle_split_float (nrows df) ts of
        Inl e \<Rightarrow> Inl e
      | Inr sizes \<Rightarrow>
          (case validate_shuffle_split_int (nrows df) (snd sizes) (fst sizes) of
             Inl e \<Rightarrow> Inl e
           | Inr sizes' \<Rightarrow>
               (case iloc df (take (fst sizes')
                       (drop (snd sizes')
                          (fst (permutation env (RandomState env s) (nrows df))))) of
                  Inl e \<Rightarrow> Inl e
                | Inr train \<Rightarrow>
                    (case iloc df (take (snd sizes')
                            (fst (permutation env (RandomState env s) (nrows df)))) of
                       Inl e \<Rightarrow> Inl e
                     | Inr test \<Rightarrow> Inr (train, test)))),
      w)"
  by (simp add: train_test_split_def bind_io_lift bind_io_rng_seeded return_io_def
      split: sum.splits)

lemma train_test_split_seeded:
  "train_test_split env df ts (Some s) w = (fst (train_test_split env df ts (Some s) w'), w)"
  by (simp add: train_test_split_seeded_run)

lemma load_data_files: "files (snd (load_data env u w)) = files w"
  by (simp add: load_data_run split: sum.splits)

lemma preprocess_data_files: "files (snd (preprocess_data df w)) = files w"
  by (simp add: preprocess_data_run split: sum.splits)

lemma train_test_split_seeded_world: "snd (train_test_split env df ts (Some s) w) = w"
  by (simp add: train_test_split_seeded_run)

lemma main_run:
  "main env w =
     (case main_body env w of
        (Inl e, w') \<Rightarrow>
          (Inl e, w'\<lparr>log := log w' @ [(ERROR, ''Data ingestion failed: '' @ str_exn e)]\<rparr>)
      | (Inr x, w') \<Rightarrow> (Inr x, w'))"
  unfolding main_def by (rule try_except_reraise)

lemma main_body_load_raised:
  "load_data env source_url w = (Inl e, w1) \<Longrightarrow> main_body env w = (Inl e, w1)"
  by (simp add: main_body_def bind_io_raised)

lemma main_body_preprocess_raised:
  "load_data env source_url w = (Inr df, w1) \<Longrightarrow> preprocess_data df w1 = (Inl e, w2) \<Longrightarrow>
   main_body env w = (Inl e, w2)"
  by (simp add: main_body_def bind_io_raised bind_io_returned)

lemma main_body_split_raised:
  "load_data env source_url w = (Inr df, w1) \<Longrightarrow> preprocess_data df w1 = (Inr df', w2) \<Longrightarrow>
   train_test_split env df' test_size (Some random_state) w2 = (Inl e, w3) \<Longrightarrow>
   main_body env w = (Inl e, w3)"
  by (simp add: main_body_def bind_io_raised bind_io_returned)

lemma main_body_save:
  "load_data env source_url w = (Inr df, w1) \<Longrightarrow> preprocess_data df w1 = (Inr df', w2) \<Longrightarrow>
   train_test_split env df' test_size (Some random_state) w2 = (Inr parts, w3) \<Longrightarrow>
   main_body env w =
     bind_io (save_data env (fst parts) (snd parts))
       (\<lambda>_. logger_debug ''Data ingestion pipeline completed successfully'') w3"
  by (simp add: main_body_def bind_io_returned)

section \<open>Concrete runs\<close>

lemma floorlog_two_eq:
  assumes "2 ^ k \<le> x" "x < 2 ^ Suc k"
  shows "floorlog 2 x = Suc k"
proof -
  have "Suc k \<le> floorlog 2 x"
    using assms(1) by (intro floorlog_ge_SucI) simp_all
  moreover have "floorlog 2 x \<le> Suc k"
    using assms(2) by (intro floorlog_leI) simp_all
  ultimately show ?thesis by simp
qed

lemma floorlog_test_size_1: "floorlog 2 (7566047373982433::nat) = 53"
  using floorlog_two_eq [of 52 7566047373982433] by simp

lemma floorlog_test_size_2: "floorlog 2 (15132094747964866::nat) = 54"
  using floorlog_two_eq [of 53 15132094747964866] by simp

lemma floorlog_1: "floorlog 2 (Suc 0) = 1"
  using floorlog_two_eq [of 0 1] by simp

lemma floorlog_2: "floorlog 2 (2::nat) = 2"
  using floorlog_two_eq [of 1 2] by simp

lemma validate_one_row:
  "validate_shuffle_split_float (Suc 0) test_size =
     Inl (ValueError ''the resulting train set will be empty'')"
  by (simp add: validate_shuffle_split_float_def test_size_def float_mul_def float_of_nat_def
      py_ceil_def round53_def floorlog_1 floorlog_test_size_1)

lemma validate_two_rows: "validate_shuffle_split_float 2 test_size = Inr (Suc 0, Suc 0)"
  by (simp add: validate_shuffle_split_float_def test_size_def float_mul_def float_of_nat_def
      py_ceil_def round53_def floorlog_2 floorlog_test_size_2 Let_def)

lemma preprocess_spam5:
  "preprocess_data spam5 w =
     (Inr clean2, w\<lparr>log := log w @ [(DEBUG, ''Data preprocessing completed'')]\<rparr>)"
proof -
  have h: "set placeholders \<subseteq> set (columns spam5)"
    by (simp add: placeholders_def spam5_columns)
  have "rename_columns renaming
          (spam5\<lparr>cols := filter (\<lambda>c. fst c \<notin> set placeholders) (cols spam5)\<rparr>) = clean2"
    by (simp add: rename_columns_def rename_label_renaming placeholders_def spam5_def clean2_def)
  with preprocess_data_ok [OF h, of w] show ?thesis by simp
qed

lemma preprocess_spam1:
  "preprocess_data spam1 w =
     (Inr clean1, w\<lparr>log := log w @ [(DEBUG, ''Data preprocessing completed'')]\<rparr>)"
proof -
  have h: "set placeholders \<subseteq> set (columns spam1)"
    by (simp add: placeholders_def columns_def spam1_def)
  have "rename_columns renaming
          (spam1\<lparr>cols := filter (\<lambda>c. fst c \<notin> set placeholders) (cols spam1)\<rparr>) = clean1"
    by (simp add: rename_columns_def rename_label_renaming placeholders_def spam1_def clean1_def)
  with preprocess_data_ok [OF h, of w] show ?thesis by simp
qed

lemma split_clean1:
  "train_test_split env clean1 test_size (Some s) w =
     (Inl (ValueError ''the resulting train set will be empty''), w)"
proof -
  have "nrows clean1 = Suc 0" by (simp add: nrows_def clean1_def)
  then show ?thesis
    by (simp add: train_test_split_seeded_run validate_one_row)
qed

lemma split_clean2:
  assumes "fst (permutation env (RandomState env s) 2) = [1, 0]"
  shows "train_test_split env clean2 test_size (Some s) w =
     (Inr (clean2_train, clean2_test), w)"
proof -
  have n: "nrows clean2 = 2" by (simp add: nrows_def clean2_def)
  have v: "validate_shuffle_split_int 2 (Suc 0) (Suc 0) = Inr (Suc 0, Suc 0)"
    by (simp add: validate_shuffle_split_int_def)
  have i1: "iloc clean2 [0] = Inr clean2_train"
    by (simp add: iloc_def nrows_def clean2_def clean2_train_def)
  have i2: "iloc clean2 [Suc 0] = Inr clean2_test"
    by (simp add: iloc_def nrows_def clean2_def clean2_test_def)
  show ?thesis
    by (simp add: train_test_split_seeded_run n validate_two_rows v assms i1 i2)
qed

lemma permutation_env0: "fst (permutation env0 g 2) = [1, 0]"
  by (simp add: env0_def upt_rec)

lemma main_body_spam5:
  assumes "read_csv env source_url = Inr spam5"
    and "fst (permutation env (RandomState env random_state) 2) = [1, 0]"
  shows "main_body env w =
     bind_io (save_data env clean2_train clean2_test)
       (\<lambda>_. logger_debug ''Data ingestion pipeline completed successfully'')
       (w\<lparr>log := log w @ [(DEBUG, ''Data loaded from '' @ source_url),
                          (DEBUG, ''Data preprocessing completed'')]\<rparr>)"
proof -
  let ?w1 = "w\<lparr>log := log w @ [(DEBUG, ''Data loaded from '' @ source_url)]\<rparr>"
  let ?w2 = "?w1\<lparr>log := log ?w1 @ [(DEBUG, ''Data preprocessing completed'')]\<rparr>"
  have l: "load_data env source_url w = (Inr spam5, ?w1)"
    by (simp add: load_data_run assms(1))
  have p: "preprocess_data spam5 ?w1 = (Inr clean2, ?w2)"
    by (rule preprocess_spam5)
  have s: "train_test_split env clean2 test_size (Some random_state) ?w2 =
      (Inr (clean2_train, clean2_test), ?w2)"
    by (rule split_clean2 [OF assms(2)])
  from main_body_save [OF l p s] show ?thesis by simp
qed

lemma env0_fields:
  "read_csv env0 source_url = Inr spam5"
  "fst (permutation env0 (RandomState env0 random_state) 2) = [1, 0]"
  "makedirs_error env0 p = None"
  "write_error env0 p = None"
  by (simp_all add: env0_def upt_rec)

lemma main_env0:
  "main env0 w0 =
     (Inr (),
      \<lparr>files = [train_csv \<mapsto> csv_of clean2_train, test_csv \<mapsto> csv_of clean2_test],
       log = [(DEBUG, ''Data loaded from '' @ source_url),
              (DEBUG, ''Data preprocessing completed''),
              (DEBUG, ''Train and test data saved to '' @ raw_data_path),
              (DEBUG, ''Data ingestion pipeline completed successfully'')],
       np_random = 0\<rparr>)"
  by (simp add: main_run main_body_spam5 [OF env0_fields(1,2)] bind_io_def save_data_run
      env0_fields logger_debug_def w0_def)

section \<open>Error propagation\<close>

text \<open>
  C8. Each of the four stages, and the main pipeline around them, does with an
  exception raised in its \<^verbatim>\<open>try\<close> block exactly this: it appends one record at
  error level that carries the text of the exception, and raises the same exception;
  it returns a value only when the block returned that value. Hence the exception of
  the first stage that fails in a run is the exception the run ends with.
\<close>

theorem stages_log_and_reraise:
  "load_params env p w =
     (case load_params_body env p w of
        (Inl e, w') \<Rightarrow>
          (Inl e, w'\<lparr>log := log w' @ [(ERROR, ''Error loading parameters: '' @ str_exn e)]\<rparr>)
      | (Inr x, w') \<Rightarrow> (Inr x, w'))
   \<and> load_data env u w =
     (case load_data_body env u w of
        (Inl e, w') \<Rightarrow>
          (Inl e, w'\<lparr>log := log w' @ [(ERROR, ''Error loading data: '' @ str_exn e)]\<rparr>)
      | (Inr x, w') \<Rightarrow> (Inr x, w'))
   \<and> preprocess_data df0 w =
     (case preprocess_data_body df0 w of
        (Inl e, w') \<Rightarrow>
          (Inl e, w'\<lparr>log := log w' @ [(ERROR, ''Error during preprocessing: '' @ str_exn e)]\<rparr>)
      | (Inr x, w') \<Rightarrow> (Inr x, w'))
   \<and> save_data env tr te w =
     (case save_data_body env tr te w of
        (Inl e, w') \<Rightarrow>
          (Inl e, w'\<lparr>log := log w' @ [(ERROR, ''Error saving data: '' @ str_exn e)]\<rparr>)
      | (Inr x, w') \<Rightarrow> (Inr x, w'))
   \<and> main env w =
     (case main_body env w of
        (Inl e, w') \<Rightarrow>
          (Inl e, w'\<lparr>log := log w' @ [(ERROR, ''Data ingestion failed: '' @ str_exn e)]\<rparr>)
      | (Inr x, w') \<Rightarrow> (Inr x, w'))
   \<and> (load_data env source_url w = (Inl e, wa) \<longrightarrow> fst (main env w) = Inl e)
   \<and> (load_data env source_url w = (Inr df, wa) \<and> preprocess_data df wa = (Inl e, wb)
        \<longrightarrow> fst (main env w) = Inl e)
   \<and> (load_data env source_url w = (Inr df, wa) \<and> preprocess_data df wa = (Inr df', wb)
        \<and> train_test_split env df' test_size (Some random_state) wb = (Inl e, wc)
        \<longrightarrow> fst (main env w) = Inl e)
   \<and> (load_data env source_url w = (Inr df, wa) \<and> preprocess_data df wa = (Inr df', wb)
        \<and> train_test_split env df' test_size (Some random_state) wb = (Inr parts, wc)
        \<and> save_data env (fst parts) (snd parts) wc = (Inl e, wd)
        \<longrightarrow> fst (main env w) = Inl e)"
proof (intro conjI impI)
  show "load_params env p w =
     (case load_params_body env p w of
        (Inl e, w') \<Rightarrow>
          (Inl e, w'\<lparr>log := log w' @ [(ERROR, ''Error loading parameters: '' @ str_exn e)]\<rparr>)
      | (Inr x, w') \<Rightarrow> (Inr x, w'))"
    unfolding load_params_def by (rule try_except_reraise)
  show "load_data env u w =
     (case load_data_body env u w of
        (Inl e, w') \<Rightarrow>
          (Inl e, w'\<lparr>log := log w' @ [(ERROR, ''Error loading data: '' @ str_exn e)]\<rparr>)
      | (Inr x, w') \<Rightarrow> (Inr x, w'))"
    unfolding load_data_def by (rule try_except_reraise)
  show "preprocess_data df0 w =
     (case preprocess_data_body df0 w of
        (Inl e, w') \<Rightarrow>
          (Inl e, w'\<lparr>log := log w' @ [(ERROR, ''Error during preprocessing: '' @ str_exn e)]\<rparr>)
      | (Inr x, w') \<Rightarrow> (Inr x, w'))"
    unfolding preprocess_data_def by (rule try_except_reraise)
  show "save_data env tr te w =
     (case save_data_body env tr te w of
        (Inl e, w') \<Rightarrow>
          (Inl e, w'\<lparr>log := log w' @ [(ERROR, ''Error saving data: '' @ str_exn e)]\<rparr>)
      | (Inr x, w') \<Rightarrow> (Inr x, w'))"
    unfolding save_data_def by (rule try_except_reraise)
  show "main env w =
     (case main_body env w of
        (Inl e, w') \<Rightarrow>
          (Inl e, w'\<lparr>log := log w' @ [(ERROR, ''Data ingestion failed: '' @ str_exn e)]\<rparr>)
      | (Inr x, w') \<Rightarrow> (Inr x, w'))"
    by (rule main_run)
next
  assume "load_data env source_url w = (Inl e, wa)"
  then show "fst (main env w) = Inl e"
    by (simp add: main_run main_body_load_raised)
next
  assume "load_data env source_url w = (Inr df, wa) \<and> preprocess_data df wa = (Inl e, wb)"
  then show "fst (main env w) = Inl e"
    by (simp add: main_run main_body_preprocess_raised)
next
  assume "load_data env source_url w = (Inr df, wa) \<and> preprocess_data df wa = (Inr df', wb)
        \<and> train_test_split env df' test_size (Some random_state) wb = (Inl e, wc)"
  then show "fst (main env w) = Inl e"
    by (simp add: main_run main_body_split_raised)
next
  assume a: "load_data env source_url w = (Inr df, wa) \<and> preprocess_data df wa = (Inr df', wb)
        \<and> train_test_split env df' test_size (Some random_state) wb = (Inr parts, wc)
        \<and> save_data env (fst parts) (snd parts) wc = (Inl e, wd)"
  then have "main_body env w = (Inl e, wd)"
    by (simp add: main_body_save bind_io_raised)
  then show "fst (main env w) = Inl e"
    by (simp add: main_run)
qed

theorem stages_log_and_reraise_witness:
  "(load_data env_unreachable source_url w0 =
      (Inl (URLError ''urlopen error''),
       w0\<lparr>log := log w0 @ [(ERROR, ''Error loading data: '' @ ''urlopen error'')]\<rparr>)
    \<and> fst (main env_unreachable w0) = Inl (URLError ''urlopen error''))
   \<and> (\<exists>e wb. load_data env_bad_schema source_url w0 = (Inr spam_no_unnamed4, w_loaded)
        \<and> preprocess_data spam_no_unnamed4 w_loaded = (Inl e, wb)
        \<and> fst (main env_bad_schema w0) = Inl e)
   \<and> (load_data env_one_row source_url w0 = (Inr spam1, w_loaded)
        \<and> preprocess_data spam1 w_loaded = (Inr clean1, w_preprocessed)
        \<and> train_test_split env_one_row clean1 test_size (Some random_state) w_preprocessed =
            (Inl (ValueError ''the resulting train set will be empty''), w_preprocessed)
        \<and> fst (main env_one_row w0) =
            Inl (ValueError ''the resulting train set will be empty''))
   \<and> (load_data env_train_write_fails source_url w0 = (Inr spam5, w_loaded)
        \<and> preprocess_data spam5 w_loaded = (Inr clean2, w_preprocessed)
        \<and> train_test_split env_train_write_fails clean2 test_size (Some random_state)
              w_preprocessed = (Inr (clean2_train, clean2_test), w_preprocessed)
        \<and> save_data env_train_write_fails clean2_train clean2_test w_preprocessed =
            (Inl (PermissionError train_csv),
             w_preprocessed\<lparr>log := log w_preprocessed @
               [(ERROR, ''Error saving data: '' @ str_exn (PermissionError train_csv))]\<rparr>)
        \<and> fst (main env_train_write_fails w0) = Inl (PermissionError train_csv))"
proof -
  have a: "load_data env_unreachable source_url w0 =
      (Inl (URLError ''urlopen error''),
       w0\<lparr>log := log w0 @ [(ERROR, ''Error loading data: '' @ ''urlopen error'')]\<rparr>)"
    by (simp add: load_data_run env_unreachable_def)
  from a stages_log_and_reraise [where env = env_unreachable and w = w0
      and e = "URLError ''urlopen error''"
      and wa = "w0\<lparr>log := log w0 @ [(ERROR, ''Error loading data: '' @ ''urlopen error'')]\<rparr>"]
  have a': "fst (main env_unreachable w0) = Inl (URLError ''urlopen error'')"
    by blast
  have bl: "load_data env_bad_schema source_url w0 = (Inr spam_no_unnamed4, w_loaded)"
    by (simp add: load_data_run env_bad_schema_def w_loaded_def)
  have "\<not> set placeholders \<subseteq> set (columns spam_no_unnamed4)"
    by (simp add: placeholders_def columns_def spam_no_unnamed4_def spam5_def)
  from preprocess_data_missing [OF this, of w_loaded] obtain e wb
    where bp: "preprocess_data spam_no_unnamed4 w_loaded = (Inl e, wb)" by blast
  from bl bp stages_log_and_reraise [where env = env_bad_schema and w = w0 and e = e
      and df = spam_no_unnamed4 and wa = w_loaded and wb = wb]
  have "fst (main env_bad_schema w0) = Inl e" by blast
  with bl bp have b: "\<exists>e wb. load_data env_bad_schema source_url w0 = (Inr spam_no_unnamed4, w_loaded)
        \<and> preprocess_data spam_no_unnamed4 w_loaded = (Inl e, wb)
        \<and> fst (main env_bad_schema w0) = Inl e" by blast
  have cl: "load_data env_one_row source_url w0 = (Inr spam1, w_loaded)"
    by (simp add: load_data_run env_one_row_def w_loaded_def)
  have cp: "preprocess_data spam1 w_loaded = (Inr clean1, w_preprocessed)"
    by (simp add: preprocess_spam1 w_preprocessed_def)
  have cs: "train_test_split env_one_row clean1 test_size (Some random_state) w_preprocessed =
            (Inl (ValueError ''the resulting train set will be empty''), w_preprocessed)"
    by (rule split_clean1)
  from cl cp cs stages_log_and_reraise [where env = env_one_row and w = w0
      and e = "ValueError ''the resulting train set will be empty''"
      and df = spam1 and wa = w_loaded and df' = clean1 and wb = w_preprocessed
      and wc = w_preprocessed]
  have c: "fst (main env_one_row w0) = Inl (ValueError ''the resulting train set will be empty'')"
    by blast
  let ?wd = "w_preprocessed\<lparr>log := log w_preprocessed @
               [(ERROR, ''Error saving data: '' @ str_exn (PermissionError train_csv))]\<rparr>"
  have dl: "load_data env_train_write_fails source_url w0 = (Inr spam5, w_loaded)"
    by (simp add: load_data_run env_train_write_fails_def env0_def w_loaded_def)
  have dp: "preprocess_data spam5 w_loaded = (Inr clean2, w_preprocessed)"
    by (simp add: preprocess_spam5 w_preprocessed_def)
  have "fst (permutation env_train_write_fails
               (RandomState env_train_write_fails random_state) 2) = [1, 0]"
    by (simp add: env_train_write_fails_def env0_def upt_rec)
  then have ds: "train_test_split env_train_write_fails clean2 test_size (Some random_state)
              w_preprocessed = (Inr (clean2_train, clean2_test), w_preprocessed)"
    by (rule split_clean2)
  have dv: "save_data env_train_write_fails clean2_train clean2_test w_preprocessed =
            (Inl (PermissionError train_csv), ?wd)"
    by (simp add: save_data_run env_train_write_fails_def env0_def)
  have d: "fst (main env_train_write_fails w0) = Inl (PermissionError train_csv)"
    using dl dp ds dv stages_log_and_reraise [where env = env_train_write_fails and w = w0
      and e = "PermissionError train_csv"
      and df = spam5 and wa = w_loaded and df' = clean2 and wb = w_preprocessed
      and parts = "(clean2_train, clean2_test)" and wc = w_preprocessed and wd = ?wd]
    unfolding fst_conv snd_conv by blast
  from a a' b cl cp cs c dl dp ds dv d show ?thesis
    by (intro conjI) assumption+
qed

section \<open>Failure before and during persisting\<close>

lemma main_failed_files:
  assumes "main_body env w = (Inl e, w')"
  shows "files (snd (main env w)) = files w'"
  using assms by (simp add: main_run)

lemma save_data_reached:
  assumes "files (snd (main env w)) \<noteq> files w"
  shows "\<exists>df wa df' wb parts wc.
           load_data env source_url w = (Inr df, wa)
         \<and> preprocess_data df wa = (Inr df', wb)
         \<and> train_test_split env df' test_size (Some random_state) wb = (Inr parts, wc)"
proof -
  obtain r1 wa where l: "load_data env source_url w = (r1, wa)"
    by (cases "load_data env source_url w")
  have fa: "files wa = files w"
    using load_data_files [of env source_url w] l by simp
  show ?thesis
  proof (cases r1)
    case (Inl e)
    with l have "main_body env w = (Inl e, wa)"
      by (simp add: main_body_load_raised)
    from main_failed_files [OF this] fa assms show ?thesis by simp
  next
    case df: (Inr df)
    obtain r2 wb where p: "preprocess_data df wa = (r2, wb)"
      by (cases "preprocess_data df wa")
    have fb: "files wb = files w"
      using preprocess_data_files [of df wa] p fa by simp
    show ?thesis
    proof (cases r2)
      case (Inl e)
      with l df p have "main_body env w = (Inl e, wb)"
        by (simp add: main_body_preprocess_raised)
      from main_failed_files [OF this] fb assms show ?thesis by simp
    next
      case df': (Inr df')
      obtain r3 wc where s: "train_test_split env df' test_size (Some random_state) wb = (r3, wc)"
        by (cases "train_test_split env df' test_size (Some random_state) wb")
      have fc: "files wc = files w"
        using train_test_split_seeded_world [of env df' test_size random_state wb] s fb
        by simp
      show ?thesis
      proof (cases r3)
        case (Inl e)
        with l df p df' s have "main_body env w = (Inl e, wc)"
          by (simp add: main_body_split_raised)
        from main_failed_files [OF this] fc assms show ?thesis by simp
      next
        case (Inr parts)
        with l df p df' s show ?thesis by blast
      qed
    qed
  qed
qed

text \<open>
  C7. When reading the CSV source raises, whatever the exception (unreachable
  resource or unparsable content), the run ends with that exception and exit status
  1, its only effects are the two error records, and the files are as before. More
  generally the files differ after a run only if loading, preprocessing and
  splitting all returned: the persist step is never reached after an earlier
  failure.
\<close>

theorem main_load_failure_writes_nothing:
  "(read_csv env source_url = Inl e \<longrightarrow>
      main env w =
        (Inl e, w\<lparr>log := log w @ [(ERROR, ''Error loading data: '' @ str_exn e),
                                   (ERROR, ''Data ingestion failed: '' @ str_exn e)]\<rparr>)
      \<and> files (snd (main env w)) = files w
      \<and> exit_status (main env w) = 1)
   \<and> (files (snd (main env w)) \<noteq> files w \<longrightarrow>
        (\<exists>df wa df' wb parts wc.
           load_data env source_url w = (Inr df, wa)
         \<and> preprocess_data df wa = (Inr df', wb)
         \<and> train_test_split env df' test_size (Some random_state) wb = (Inr parts, wc)))"
proof (intro conjI impI)
  assume a: "read_csv env source_url = Inl e"
  let ?wa = "w\<lparr>log := log w @ [(ERROR, ''Error loading data: '' @ str_exn e)]\<rparr>"
  from a have "load_data env source_url w = (Inl e, ?wa)"
    by (simp add: load_data_run)
  then have "main_body env w = (Inl e, ?wa)"
    by (rule main_body_load_raised)
  then have m: "main env w =
        (Inl e, w\<lparr>log := log w @ [(ERROR, ''Error loading data: '' @ str_exn e),
                                   (ERROR, ''Data ingestion failed: '' @ str_exn e)]\<rparr>)"
    by (simp add: main_run)
  then show "main env w =
        (Inl e, w\<lparr>log := log w @ [(ERROR, ''Error loading data: '' @ str_exn e),
                                   (ERROR, ''Data ingestion failed: '' @ str_exn e)]\<rparr>)" .
  from m show "files (snd (main env w)) = files w" by simp
  from m show "exit_status (main env w) = 1" by (simp add: exit_status_def)
next
  assume "files (snd (main env w)) \<noteq> files w"
  then show "\<exists>df wa df' wb parts wc.
           load_data env source_url w = (Inr df, wa)
         \<and> preprocess_data df wa = (Inr df', wb)
         \<and> train_test_split env df' test_size (Some random_state) wb = (Inr parts, wc)"
    by (rule save_data_reached)
qed

theorem main_load_failure_writes_nothing_witness:
  "read_csv env_parse_error source_url = Inl (ParserError ''Error tokenizing data'')
   \<and> main env_parse_error w0 =
        (Inl (ParserError ''Error tokenizing data''),
         w0\<lparr>log := log w0 @
            [(ERROR, ''Error loading data: '' @ str_exn (ParserError ''Error tokenizing data'')),
             (ERROR, ''Data ingestion failed: '' @
                str_exn (ParserError ''Error tokenizing data''))]\<rparr>)
   \<and> files (snd (main env_parse_error w0)) = files w0
   \<and> exit_status (main env_parse_error w0) = 1
   \<and> files (snd (main env0 w0)) \<noteq> files w0
   \<and> (\<exists>df wa df' wb parts wc.
           load_data env0 source_url w0 = (Inr df, wa)
         \<and> preprocess_data df wa = (Inr df', wb)
         \<and> train_test_split env0 df' test_size (Some random_state) wb = (Inr parts, wc))"
proof -
  have h1: "read_csv env_parse_error source_url = Inl (ParserError ''Error tokenizing data'')"
    by (simp add: env_parse_error_def)
  have "files (snd (main env0 w0)) =
      [train_csv \<mapsto> csv_of clean2_train, test_csv \<mapsto> csv_of clean2_test]"
    by (simp add: main_env0)
  moreover have "files w0 = Map.empty"
    by (simp add: w0_def)
  ultimately have h2: "files (snd (main env0 w0)) \<noteq> files w0"
    by simp
  from h1 h2
    main_load_failure_writes_nothing [of env_parse_error "ParserError ''Error tokenizing data''" w0]
    main_load_failure_writes_nothing [of env0 "ParserError ''Error tokenizing data''" w0]
  show ?thesis by blast
qed

text \<open>
  C10. The persister writes \<^verbatim>\<open>train.csv\<close> first and \<^verbatim>\<open>test.csv\<close> second and undoes
  nothing. When the directory and \<^verbatim>\<open>train.csv\<close> are written and the write of
  \<^verbatim>\<open>test.csv\<close> fails, the exception is re-raised, \<^verbatim>\<open>train.csv\<close> holds the new train
  partition and \<^verbatim>\<open>test.csv\<close> is as it was before the call. When the write of
  \<^verbatim>\<open>train.csv\<close> fails, \<^verbatim>\<open>test.csv\<close> is not attempted and no file changes. A run of
  the whole pipeline whose \<^verbatim>\<open>test.csv\<close> write fails therefore ends with exactly
  \<^verbatim>\<open>train.csv\<close> rewritten.
\<close>

theorem save_data_not_atomic:
  "(makedirs_error env raw_data_path = None \<and> write_error env train_csv = None
      \<and> write_error env test_csv = Some e \<longrightarrow>
      save_data env tr te w =
        (Inl e, w\<lparr>files := (files w)(train_csv \<mapsto> csv_of tr),
                  log := log w @ [(ERROR, ''Error saving data: '' @ str_exn e)]\<rparr>)
      \<and> files (snd (save_data env tr te w)) train_csv = Some (csv_of tr)
      \<and> files (snd (save_data env tr te w)) test_csv = files w test_csv)
   \<and> (makedirs_error env raw_data_path = None \<and> write_error env train_csv = Some e \<longrightarrow>
      fst (save_data env tr te w) = Inl e \<and> files (snd (save_data env tr te w)) = files w)
   \<and> (load_data env source_url w = (Inr df, wa) \<and> preprocess_data df wa = (Inr df', wb)
      \<and> train_test_split env df' test_size (Some random_state) wb = (Inr parts, wc)
      \<and> makedirs_error env raw_data_path = None \<and> write_error env train_csv = None
      \<and> write_error env test_csv = Some e \<longrightarrow>
      fst (main env w) = Inl e
      \<and> files (snd (main env w)) = (files w)(train_csv \<mapsto> csv_of (fst parts)))"
proof (intro conjI impI)
  assume a: "makedirs_error env raw_data_path = None \<and> write_error env train_csv = None
      \<and> write_error env test_csv = Some e"
  then have s: "save_data env tr te w =
        (Inl e, w\<lparr>files := (files w)(train_csv \<mapsto> csv_of tr),
                  log := log w @ [(ERROR, ''Error saving data: '' @ str_exn e)]\<rparr>)"
    by (simp add: save_data_run)
  then show "save_data env tr te w =
        (Inl e, w\<lparr>files := (files w)(train_csv \<mapsto> csv_of tr),
                  log := log w @ [(ERROR, ''Error saving data: '' @ str_exn e)]\<rparr>)" .
  from s show "files (snd (save_data env tr te w)) train_csv = Some (csv_of tr)"
    by simp
  have "test_csv \<noteq> train_csv"
    by (simp add: test_csv_def train_csv_def path_join_def)
  with s show "files (snd (save_data env tr te w)) test_csv = files w test_csv"
    by simp
next
  assume a: "makedirs_error env raw_data_path = None \<and> write_error env train_csv = Some e"
  then show "fst (save_data env tr te w) = Inl e"
    by (simp add: save_data_run)
  from a show "files (snd (save_data env tr te w)) = files w"
    by (simp add: save_data_run)
next
  assume a: "load_data env source_url w = (Inr df, wa) \<and> preprocess_data df wa = (Inr df', wb)
      \<and> train_test_split env df' test_size (Some random_state) wb = (Inr parts, wc)
      \<and> makedirs_error env raw_data_path = None \<and> write_error env train_csv = None
      \<and> write_error env test_csv = Some e"
  have fa: "files wa = files w"
    using load_data_files [of env source_url w] a by simp
  have fb: "files wb = files wa"
    using preprocess_data_files [of df wa] a by simp
  have fc: "wc = wb"
    using train_test_split_seeded_world [of env df' test_size random_state wb] a by simp
  from a have s: "save_data env (fst parts) (snd parts) wc =
        (Inl e, wc\<lparr>files := (files wc)(train_csv \<mapsto> csv_of (fst parts)),
                   log := log wc @ [(ERROR, ''Error saving data: '' @ str_exn e)]\<rparr>)"
    by (simp add: save_data_run)
  from a have "main_body env w =
      bind_io (save_data env (fst parts) (snd parts))
        (\<lambda>_. logger_debug ''Data ingestion pipeline completed successfully'') wc"
    by (simp add: main_body_save)
  with s have m: "main_body env w =
        (Inl e, wc\<lparr>files := (files wc)(train_csv \<mapsto> csv_of (fst parts)),
                   log := log wc @ [(ERROR, ''Error saving data: '' @ str_exn e)]\<rparr>)"
    by (simp add: bind_io_raised)
  then show "fst (main env w) = Inl e"
    by (simp add: main_run)
  from m fa fb fc show "files (snd (main env w)) = (files w)(train_csv \<mapsto> csv_of (fst parts))"
    by (simp add: main_run)
qed

theorem save_data_not_atomic_witness:
  "(makedirs_error env_test_write_fails raw_data_path = None
      \<and> write_error env_test_write_fails train_csv = None
      \<and> write_error env_test_write_fails test_csv = Some (PermissionError test_csv)
      \<and> files (snd (save_data env_test_write_fails clean2_train clean2_test w0)) train_csv =
           Some (csv_of clean2_train)
      \<and> files (snd (save_data env_test_write_fails clean2_train clean2_test w0)) test_csv = None)
   \<and> (makedirs_error env_train_write_fails raw_data_path = None
      \<and> write_error env_train_write_fails train_csv = Some (PermissionError train_csv)
      \<and> fst (save_data env_train_write_fails clean2_train clean2_test w0) =
           Inl (PermissionError train_csv)
      \<and> files (snd (save_data env_train_write_fails clean2_train clean2_test w0)) = files w0)
   \<and> (load_data env_test_write_fails source_url w0 = (Inr spam5, w_loaded)
      \<and> preprocess_data spam5 w_loaded = (Inr clean2, w_preprocessed)
      \<and> train_test_split env_test_write_fails clean2 test_size (Some random_state)
            w_preprocessed = (Inr (clean2_train, clean2_test), w_preprocessed)
      \<and> fst (main env_test_write_fails w0) = Inl (PermissionError test_csv)
      \<and> files (snd (main env_test_write_fails w0)) =
           (files w0)(train_csv \<mapsto> csv_of clean2_train))"
proof -
  have ne: "test_csv \<noteq> train_csv" "train_csv \<noteq> test_csv"
    by (simp_all add: test_csv_def train_csv_def path_join_def)
  have a: "makedirs_error env_test_write_fails raw_data_path = None
      \<and> write_error env_test_write_fails train_csv = None
      \<and> write_error env_test_write_fails test_csv = Some (PermissionError test_csv)"
    using ne by (simp add: env_test_write_fails_def env0_def)
  have b: "makedirs_error env_train_write_fails raw_data_path = None
      \<and> write_error env_train_write_fails train_csv = Some (PermissionError train_csv)"
    by (simp add: env_train_write_fails_def env0_def)
  have cl: "load_data env_test_write_fails source_url w0 = (Inr spam5, w_loaded)"
    by (simp add: load_data_run env_test_write_fails_def env0_def w_loaded_def)
  have cp: "preprocess_data spam5 w_loaded = (Inr clean2, w_preprocessed)"
    by (simp add: preprocess_spam5 w_preprocessed_def)
  have "fst (permutation env_test_write_fails
               (RandomState env_test_write_fails random_state) 2) = [1, 0]"
    by (simp add: env_test_write_fails_def env0_def upt_rec)
  then have cs: "train_test_split env_test_write_fails clean2 test_size (Some random_state)
              w_preprocessed = (Inr (clean2_train, clean2_test), w_preprocessed)"
    by (rule split_clean2)
  have f0: "files w0 test_csv = None"
    by (simp add: w0_def)
  note T1 = save_data_not_atomic [where env = env_test_write_fails
      and e = "PermissionError test_csv" and tr = clean2_train and te = clean2_test and w = w0
      and df = spam5 and wa = w_loaded and df' = clean2 and wb = w_preprocessed
      and parts = "(clean2_train, clean2_test)" and wc = w_preprocessed]
  note T2 = save_data_not_atomic [where env = env_train_write_fails
      and e = "PermissionError train_csv" and tr = clean2_train and te = clean2_test and w = w0]
  have r1: "files (snd (save_data env_test_write_fails clean2_train clean2_test w0)) train_csv =
           Some (csv_of clean2_train)
      \<and> files (snd (save_data env_test_write_fails clean2_train clean2_test w0)) test_csv = None"
  proof -
    have "files (snd (save_data env_test_write_fails clean2_train clean2_test w0)) train_csv =
           Some (csv_of clean2_train)
      \<and> files (snd (save_data env_test_write_fails clean2_train clean2_test w0)) test_csv =
           files w0 test_csv"
      using a T1 by blast
    with f0 show ?thesis by simp
  qed
  have r2: "fst (save_data env_train_write_fails clean2_train clean2_test w0) =
           Inl (PermissionError train_csv)
      \<and> files (snd (save_data env_train_write_fails clean2_train clean2_test w0)) = files w0"
    using b T2 by blast
  have r3: "fst (main env_test_write_fails w0) = Inl (PermissionError test_csv)
      \<and> files (snd (main env_test_write_fails w0)) =
           (files w0)(train_csv \<mapsto> csv_of clean2_train)"
    using a cl cp cs T1 unfolding fst_conv snd_conv by blast
  from a b cl cp cs r1 r2 r3 show ?thesis by blast
qed

section \<open>The configuration file\<close>

lemma load_data_config:
  "load_data (env\<lparr>read_text := r, yaml_safe_load := y\<rparr>) u = load_data env u"
  by (simp add: load_data_def load_data_body_def)

lemma rng_permutation_config:
  "rng_permutation (env\<lparr>read_text := r, yaml_safe_load := y\<rparr>) seed n =
     rng_permutation env seed n"
  by (rule ext) (simp add: rng_permutation_def split: option.splits)

lemma to_csv_config:
  "to_csv (env\<lparr>read_text := r, yaml_safe_load := y\<rparr>) df path = to_csv env df path"
  by (rule ext) (simp add: to_csv_def split: option.splits)

lemma train_test_split_config:
  "train_test_split (env\<lparr>read_text := r, yaml_safe_load := y\<rparr>) df ts seed =
     train_test_split env df ts seed"
  by (simp add: train_test_split_def rng_permutation_config)

lemma save_data_config:
  "save_data (env\<lparr>read_text := r, yaml_safe_load := y\<rparr>) tr te = save_data env tr te"
  by (simp add: save_data_def save_data_body_def makedirs_def to_csv_config)

lemma main_config: "main (env\<lparr>read_text := r, yaml_safe_load := y\<rparr>) = main env"
  by (simp add: main_def main_body_def load_data_config train_test_split_config
      save_data_config)

text \<open>
  C2, at a run the claim covers: no configuration file exists at any path, and the
  source and the disk are in order. The run does not abort: it returns normally,
  with exit status 0, and its log holds four debug records, none about parameters
  and none at error level.
\<close>

theorem main_without_config_counterexample:
  "read_text env0 ''params.yaml'' = Inl (FileNotFoundError ''params.yaml'')
   \<and> fst (main env0 w0) = Inr ()
   \<and> exit_status (main env0 w0) = 0
   \<and> log (snd (main env0 w0)) =
       [(DEBUG, ''Data loaded from '' @ source_url),
        (DEBUG, ''Data preprocessing completed''),
        (DEBUG, ''Train and test data saved to '' @ raw_data_path),
        (DEBUG, ''Data ingestion pipeline completed successfully'')]"
  by (simp add: main_env0 exit_status_def) (simp add: env0_def)

text \<open>
  C2 as amended. The parameter loader, when it is called, returns the parsed
  content of the configuration file after one debug record; called on a path where
  no file exists it appends one error record that contains the path and raises the
  FileNotFoundError. The main pipeline never calls the parameter loader: its first
  stage is the data loader, and the whole run (result, log, files) is the same
  whatever the configuration file holds and whether or not it exists.
\<close>

theorem load_params_and_main_config:
  "(read_text env p = Inl (FileNotFoundError p) \<longrightarrow>
      load_params env p w =
        (Inl (FileNotFoundError p),
         w\<lparr>log := log w @
            [(ERROR, ''Error loading parameters: [Errno 2] No such file or directory: ''
                       @ py_repr_str p)]\<rparr>))
   \<and> (read_text env p = Inr t \<and> yaml_safe_load env t = Inr v \<longrightarrow>
      load_params env p w =
        (Inr v, w\<lparr>log := log w @ [(DEBUG, ''Parameters loaded from '' @ p)]\<rparr>))
   \<and> main (env\<lparr>read_text := r, yaml_safe_load := y\<rparr>) w = main env w"
proof (intro conjI impI)
  assume "read_text env p = Inl (FileNotFoundError p)"
  then show "load_params env p w =
        (Inl (FileNotFoundError p),
         w\<lparr>log := log w @
            [(ERROR, ''Error loading parameters: [Errno 2] No such file or directory: ''
                       @ py_repr_str p)]\<rparr>)"
    by (simp add: load_params_run)
next
  assume "read_text env p = Inr t \<and> yaml_safe_load env t = Inr v"
  then show "load_params env p w =
        (Inr v, w\<lparr>log := log w @ [(DEBUG, ''Parameters loaded from '' @ p)]\<rparr>)"
    by (simp add: load_params_run)
next
  show "main (env\<lparr>read_text := r, yaml_safe_load := y\<rparr>) w = main env w"
    by (simp add: main_config)
qed

theorem load_params_and_main_config_witness:
  "read_text env0 ''params.yaml'' = Inl (FileNotFoundError ''params.yaml'')
   \<and> load_params env0 ''params.yaml'' w0 =
        (Inl (FileNotFoundError ''params.yaml''),
         w0\<lparr>log := log w0 @
            [(ERROR, ''Error loading parameters: [Errno 2] No such file or directory: ''
                       @ py_repr_str ''params.yaml'')]\<rparr>)
   \<and> read_text env_params ''params.yaml'' = Inr ''test_size: 0.2''
   \<and> yaml_safe_load env_params ''test_size: 0.2'' = Inr (YMap [(''test_size'', YScalar ''0.2'')])
   \<and> load_params env_params ''params.yaml'' w0 =
        (Inr (YMap [(''test_size'', YScalar ''0.2'')]),
         w0\<lparr>log := log w0 @ [(DEBUG, ''Parameters loaded from '' @ ''params.yaml'')]\<rparr>)
   \<and> main env_params w0 = main env0 w0"
proof -
  have h1: "read_text env0 ''params.yaml'' = Inl (FileNotFoundError ''params.yaml'')"
    by (simp add: env0_def)
  have h2: "read_text env_params ''params.yaml'' = Inr ''test_size: 0.2''"
    by (simp add: env_params_def)
  have h3: "yaml_safe_load env_params ''test_size: 0.2'' =
      Inr (YMap [(''test_size'', YScalar ''0.2'')])"
    by (simp add: env_params_def)
  note T1 = load_params_and_main_config [where env = env0 and p = "''params.yaml''" and w = w0]
  note T2 = load_params_and_main_config [where env = env_params and p = "''params.yaml''"
      and w = w0 and t = "''test_size: 0.2''" and v = "YMap [(''test_size'', YScalar ''0.2'')]"]
  note T3 = load_params_and_main_config [where env = env0 and w = w0
      and r = "\<lambda>p. if p = ''params.yaml'' then Inr ''test_size: 0.2''
                  else Inl (FileNotFoundError p)"
      and y = "\<lambda>t. Inr (YMap [(''test_size'', YScalar ''0.2'')])"]
  have r1: "load_params env0 ''params.yaml'' w0 =
        (Inl (FileNotFoundError ''params.yaml''),
         w0\<lparr>log := log w0 @
            [(ERROR, ''Error loading parameters: [Errno 2] No such file or directory: ''
                       @ py_repr_str ''params.yaml'')]\<rparr>)"
    using h1 T1 by blast
  have r2: "load_params env_params ''params.yaml'' w0 =
        (Inr (YMap [(''test_size'', YScalar ''0.2'')]),
         w0\<lparr>log := log w0 @ [(DEBUG, ''Parameters loaded from '' @ ''params.yaml'')]\<rparr>)"
    using h2 h3 T2 by blast
  have r3: "main env_params w0 = main env0 w0"
    unfolding env_params_def using T3 by blast
  from h1 h2 h3 r1 r2 r3 show ?thesis by blast
qed

section \<open>The split\<close>

lemma validate_shuffle_split_float_sizes:
  assumes "validate_shuffle_split_float n ts = Inr (a, b)"
  shows "a + b = n \<and> a \<noteq> 0 \<and> b = py_ceil (float_mul ts (float_of_nat n))"
  using assms
  by (auto simp: validate_shuffle_split_float_def Let_def split: if_splits)

lemma validate_shuffle_split_int_sizes:
  assumes "validate_shuffle_split_int n b a = Inr (a', b')"
  shows "a' = a \<and> b' = b"
  using assms
  by (auto simp: validate_shuffle_split_int_def split: if_splits)

lemma iloc_rows:
  assumes "iloc df inds = Inr d"
  shows "rows d = map (row_at df) inds" and "columns d = columns df"
    and "nrows d = length inds"
proof -
  from assms have d: "d = \<lparr>index = map (\<lambda>i. index df ! i) inds,
      cols = map (\<lambda>c. (fst c, map (\<lambda>i. snd c ! i) inds)) (cols df)\<rparr>"
    by (simp add: iloc_def split: if_splits)
  show "nrows d = length inds"
    by (simp add: d nrows_def)
  show "columns d = columns df"
    by (simp add: d columns_def comp_def)
  have "row_at d j = row_at df (inds ! j)" if "j < length inds" for j
    using that by (simp add: d row_at_def row_cells_def comp_def)
  then have "map (row_at d) [0..<length inds] = map (\<lambda>j. row_at df (inds ! j)) [0..<length inds]"
    by simp
  also have "\<dots> = map (row_at df) (map ((!) inds) [0..<length inds])"
    by (simp only: map_map comp_def)
  also have "\<dots> = map (row_at df) inds"
    by (simp only: map_nth)
  finally show "rows d = map (row_at df) inds"
    by (simp add: rows_def \<open>nrows d = length inds\<close>)
qed

lemma iloc_in_range:
  assumes "set inds \<subseteq> {0..<nrows df}"
  shows "\<exists>d. iloc df inds = Inr d"
  using assms by (auto simp: iloc_def list_all_iff)

lemma train_test_split_seeded_parts:
  assumes "train_test_split env df ts (Some s) w = (Inr (train, test), w')"
  shows "\<exists>a b. a + b = nrows df \<and> a \<noteq> 0
           \<and> b = py_ceil (float_mul ts (float_of_nat (nrows df)))
           \<and> iloc df (take a (drop b (fst (permutation env (RandomState env s) (nrows df)))))
               = Inr train
           \<and> iloc df (take b (fst (permutation env (RandomState env s) (nrows df))))
               = Inr test"
proof -
  let ?P = "fst (permutation env (RandomState env s) (nrows df))"
  from assms obtain sizes where v: "validate_shuffle_split_float (nrows df) ts = Inr sizes"
    by (auto simp: train_test_split_seeded_run split: sum.splits)
  obtain a b where sizes: "sizes = (a, b)" by (cases sizes)
  from assms v sizes obtain sizes'
    where v': "validate_shuffle_split_int (nrows df) b a = Inr sizes'"
    by (auto simp: train_test_split_seeded_run split: sum.splits)
  obtain a' b' where sizes': "sizes' = (a', b')" by (cases sizes')
  from validate_shuffle_split_int_sizes [OF v' [unfolded sizes']]
  have eq: "a' = a" "b' = b" by simp_all
  from assms v sizes v' sizes' eq
  have "iloc df (take a (drop b ?P)) = Inr train \<and> iloc df (take b ?P) = Inr test"
    by (auto simp: train_test_split_seeded_run split: sum.splits)
  with validate_shuffle_split_float_sizes [OF v [unfolded sizes]] show ?thesis
    by blast
qed

text \<open>
  C5. With an integer seed the split draws from a generator made from that seed and
  touches nothing else: it leaves the world (log, files and numpy's global
  generator) as it was, and its outcome is the same from every world. So running it
  twice in a row on the same dataset, seed and fraction gives the same pair of
  partitions twice, or the same exception.
\<close>

theorem train_test_split_deterministic:
  "snd (train_test_split env df ts (Some s) w) = w
   \<and> fst (train_test_split env df ts (Some s) w) = fst (train_test_split env df ts (Some s) w')
   \<and> bind_io (train_test_split env df ts (Some s)) (\<lambda>first.
       bind_io (train_test_split env df ts (Some s)) (\<lambda>second.
       return_io (first, second))) w =
      (case fst (train_test_split env df ts (Some s) w) of
         Inl e \<Rightarrow> (Inl e, w)
       | Inr parts \<Rightarrow> (Inr (parts, parts), w))"
proof (intro conjI)
  show "snd (train_test_split env df ts (Some s) w) = w"
    by (rule train_test_split_seeded_world)
  show "fst (train_test_split env df ts (Some s) w) = fst (train_test_split env df ts (Some s) w')"
    using train_test_split_seeded [of env df ts s w w']
      train_test_split_seeded [of env df ts s w w]
    by (metis fst_conv)
  obtain r where r: "train_test_split env df ts (Some s) w = (r, w)"
    using train_test_split_seeded [of env df ts s w w] by blast
  show "bind_io (train_test_split env df ts (Some s)) (\<lambda>first.
       bind_io (train_test_split env df ts (Some s)) (\<lambda>second.
       return_io (first, second))) w =
      (case fst (train_test_split env df ts (Some s) w) of
         Inl e \<Rightarrow> (Inl e, w)
       | Inr parts \<Rightarrow> (Inr (parts, parts), w))"
    by (cases r) (simp_all add: r bind_io_def return_io_def)
qed

text \<open>
  C4. Provided numpy's \<^verbatim>\<open>permutation\<close> returns a permutation of the row positions,
  the two partitions a split returns are the rows of the input at two lists of
  positions that have no position in common and together are all positions, each
  once: the rows of train and test together are exactly the rows of the input as a
  multiset, every row with its index label and its cells unchanged, and both
  partitions have the columns of the input.
\<close>

theorem train_test_split_partition:
  assumes "mset (fst (permutation env (RandomState env s) (nrows df))) = mset [0..<nrows df]"
    and "train_test_split env df ts (Some s) w = (Inr (train, test), w')"
  shows "\<exists>ind_train ind_test.
           rows train = map (row_at df) ind_train
         \<and> rows test = map (row_at df) ind_test
         \<and> distinct (ind_train @ ind_test)
         \<and> set ind_train \<inter> set ind_test = {}
         \<and> set ind_train \<union> set ind_test = {0..<nrows df}
         \<and> mset (rows train) + mset (rows test) = mset (rows df)
         \<and> columns train = columns df \<and> columns test = columns df"
proof -
  let ?P = "fst (permutation env (RandomState env s) (nrows df))"
  from train_test_split_seeded_parts [OF assms(2)] obtain a b
    where ab: "a + b = nrows df"
      and tr: "iloc df (take a (drop b ?P)) = Inr train"
      and te: "iloc df (take b ?P) = Inr test"
    by blast
  have len: "length ?P = nrows df"
    using assms(1) by (metis length_upt mset_eq_length minus_nat.diff_0)
  have dist: "distinct ?P"
    using assms(1) by (metis distinct_upt mset_eq_imp_distinct_iff)
  have set_P: "set ?P = {0..<nrows df}"
    using assms(1) by (metis mset_eq_setD set_upt)
  let ?tr = "take a (drop b ?P)" and ?te = "take b ?P"
  have "?tr = drop b ?P"
    using ab len by simp
  then have app: "?te @ ?tr = ?P"
    by simp
  have d: "distinct (?tr @ ?te)"
    using dist app by (metis distinct_append inf_commute)
  then have disj: "set ?tr \<inter> set ?te = {}"
    by simp
  have un: "set ?tr \<union> set ?te = {0..<nrows df}"
    using set_P app by (metis set_append sup_commute)
  have "mset (map (row_at df) ?tr) + mset (map (row_at df) ?te) = mset (map (row_at df) ?P)"
    using app by (metis mset_append mset_map union_commute image_mset_union)
  also have "\<dots> = mset (map (row_at df) [0..<nrows df])"
    using assms(1) by simp
  finally have ms: "mset (map (row_at df) ?tr) + mset (map (row_at df) ?te) = mset (rows df)"
    by (simp add: rows_def)
  from iloc_rows [OF tr] iloc_rows [OF te] d disj un ms show ?thesis
    by (intro exI [of _ ?tr] exI [of _ ?te]) simp
qed

theorem train_test_split_partition_witness:
  "mset (fst (permutation env0 (RandomState env0 42) (nrows clean2))) = mset [0..<nrows clean2]
   \<and> train_test_split env0 clean2 test_size (Some 42) w0 = (Inr (clean2_train, clean2_test), w0)
   \<and> (\<exists>ind_train ind_test.
           rows clean2_train = map (row_at clean2) ind_train
         \<and> rows clean2_test = map (row_at clean2) ind_test
         \<and> distinct (ind_train @ ind_test)
         \<and> set ind_train \<inter> set ind_test = {}
         \<and> set ind_train \<union> set ind_test = {0..<nrows clean2}
         \<and> mset (rows clean2_train) + mset (rows clean2_test) = mset (rows clean2)
         \<and> columns clean2_train = columns clean2 \<and> columns clean2_test = columns clean2)"
proof -
  have n: "nrows clean2 = 2"
    by (simp add: nrows_def clean2_def)
  have u: "[0..<nrows clean2] = [0, 1]"
    by (simp add: n upt_rec)
  have p: "fst (permutation env0 (RandomState env0 42) (nrows clean2)) = [1, 0]"
    by (simp add: n permutation_env0)
  have h1: "mset (fst (permutation env0 (RandomState env0 42) (nrows clean2))) =
      mset [0..<nrows clean2]"
    by (simp only: u p) (simp add: add_mset_commute)
  have h2: "train_test_split env0 clean2 test_size (Some 42) w0 =
      (Inr (clean2_train, clean2_test), w0)"
    by (rule split_clean2) (rule permutation_env0)
  from h1 h2 train_test_split_partition [OF h1 h2] show ?thesis by blast
qed

section \<open>Sizes of the partitions\<close>

lemma round53_small: "n < 2 ^ 53 \<Longrightarrow> round53 n = n"
  by (simp add: round53_def Let_def floorlog_leI)

lemma round53_error:
  "round53 p * 2 ^ 53 \<le> p * 2 ^ 53 + p \<and> p * 2 ^ 53 \<le> round53 p * 2 ^ 53 + p"
proof (cases "floorlog 2 p \<le> 53")
  case True
  then show ?thesis by (simp add: round53_def)
next
  case False
  define k where "k = floorlog 2 p - 53"
  define x :: nat where "x = 2 ^ k"
  define q where "q = p div x"
  define r where "r = p mod x"
  from False have l: "floorlog 2 p = k + 53" and kpos: "0 < k"
    by (simp_all add: k_def)
  from False have "p > 0"
    by (cases "p = 0") (simp_all add: floorlog_def)
  from floorlog_bounds [OF this, of 2] have "2 ^ (floorlog 2 p - 1) \<le> p"
    by simp
  moreover have "floorlog 2 p - 1 = k + 52"
    using l by simp
  ultimately have "(2::nat) ^ (k + 52) \<le> p"
    by (simp only:)
  then have xp: "x * 2 ^ 52 \<le> p"
    by (simp add: x_def power_add)
  have xpos: "0 < x" by (simp add: x_def)
  have p: "p = q * x + r"
    by (simp add: q_def r_def)
  have rx: "r < x"
    using xpos by (simp add: r_def)
  have rd: "round53 p = (if x < 2 * r \<or> (2 * r = x \<and> odd q) then (q + 1) * x else q * x)"
    using False by (simp add: round53_def Let_def k_def x_def q_def r_def)
  show ?thesis
  proof (cases "x < 2 * r \<or> (2 * r = x \<and> odd q)")
    case True
    then have t: "round53 p = q * x + x" and "x \<le> 2 * r"
      by (auto simp: rd)
    with xp p rx show ?thesis
      by (simp add: algebra_simps)
  next
    case False
    then have t: "round53 p = q * x" and "2 * r \<le> x"
      by (auto simp: rd)
    with xp p rx show ?thesis
      by (simp add: algebra_simps)
  qed
qed

lemma py_ceil_bounds:
  "fst x \<le> py_ceil x * 2 ^ snd x \<and> py_ceil x * 2 ^ snd x < fst x + 2 ^ snd x"
proof -
  define d :: nat where "d = 2 ^ snd x"
  have dpos: "0 < d" by (simp add: d_def)
  define y where "y = fst x + d - 1"
  define c where "c = y div d"
  have "y = c * d + y mod d" by (simp add: c_def)
  moreover have "y mod d < d" using dpos by simp
  ultimately have 1: "c * d \<le> y" "y < c * d + d"
    by linarith+
  have 2: "y + 1 = fst x + d"
    using dpos by (simp add: y_def)
  from 1 2 have "fst x \<le> c * d \<and> c * d < fst x + d"
    by linarith
  moreover have "py_ceil x = c"
    by (simp add: py_ceil_def c_def y_def d_def)
  ultimately show ?thesis
    by (simp add: d_def)
qed

lemma test_count_bounds:
  assumes "n < 2 ^ 53"
  shows "21 * n < 100 * py_ceil (float_mul test_size (float_of_nat n)) + 32
       \<and> 100 * py_ceil (float_mul test_size (float_of_nat n)) < 21 * n + 118"
proof -
  define T where "T = round53 (7566047373982433 * n)"
  define b where "b = py_ceil (float_mul test_size (float_of_nat n))"
  have fm: "float_mul test_size (float_of_nat n) = (T, 55)"
    by (simp add: float_mul_def float_of_nat_def test_size_def round53_small [OF assms] T_def)
  from py_ceil_bounds [of "(T, 55)"]
  have c: "T \<le> b * 36028797018963968" "b * 36028797018963968 < T + 36028797018963968"
    by (simp_all add: b_def fm)
  from round53_error [of "7566047373982433 * n"]
  have e: "T * 9007199254740992 \<le> 7566047373982433 * n * 9007199254740992 + 7566047373982433 * n"
    "7566047373982433 * n * 9007199254740992 \<le> T * 9007199254740992 + 7566047373982433 * n"
    by (simp_all add: T_def)
  from assms have n: "n < 9007199254740992" by simp
  from c e n have "21 * n < 100 * b + 32" by linarith
  moreover from c e n have "100 * b < 21 * n + 118" by linarith
  ultimately show ?thesis by (simp add: b_def)
qed

lemma test_size_in_range: "\<not> (fst test_size = 0 \<or> 2 ^ snd test_size \<le> fst test_size)"
  by (simp add: test_size_def)

lemma round_nearest_int:
  fixes n :: nat and c :: int
  assumes "0 < c"
  shows "\<bar>100 * round (real_of_int c * real n / 100) - c * int n\<bar> \<le> 50"
proof -
  let ?x = "real_of_int c * real n / 100"
  define y where "y = real_of_int (round ?x) - ?x"
  have "\<bar>y\<bar> \<le> 1 / 2"
    unfolding y_def by (rule of_int_round_abs_le)
  moreover have "\<bar>100 * y\<bar> = 100 * \<bar>y\<bar>"
    by (simp add: abs_mult)
  ultimately have "\<bar>100 * y\<bar> \<le> 50"
    by linarith
  then have "\<bar>100 * (of_int (round ?x) - ?x)\<bar> \<le> 50"
    by (simp only: y_def)
  moreover have "100 * (of_int (round ?x) - ?x) = real_of_int (100 * round ?x - c * int n)"
    by (simp add: algebra_simps)
  ultimately have "\<bar>real_of_int (100 * round ?x - c * int n)\<bar> \<le> real_of_int 50"
    by simp
  then show ?thesis
    by (simp only: of_int_abs [symmetric] of_int_le_iff)
qed

text \<open>
  C3, at an input the claim covers: a preprocessed dataset of one row. The split
  produces no partition at all; scikit-learn refuses an empty train part.
\<close>

theorem train_test_split_one_row_counterexample:
  "nrows clean1 = 1
   \<and> train_test_split env0 clean1 test_size (Some random_state) w0 =
       (Inl (ValueError ''the resulting train set will be empty''), w0)"
  by (simp add: split_clean1) (simp add: nrows_def clean1_def)

text \<open>
  C3 as amended. For a dataset of \<open>n\<close> rows with \<open>2 \<le> n < 2 ^ 53\<close> (and a generator
  whose permutation is one), the split with fraction 0.21 returns. The test part has
  \<open>ceil(0.21 * n)\<close> rows, computed in double precision, the train part has the
  other \<open>n - ceil(0.21 * n)\<close>. Each count is within one row of the nearest integer
  to \<open>0.21 n\<close>, respectively \<open>0.79 n\<close>, whichever way ties are rounded: the bound is
  stated for \<open>round\<close> and for every integer \<open>r\<close> at distance at most one half.
\<close>

theorem train_test_split_sizes:
  assumes "2 \<le> nrows df" and "nrows df < 2 ^ 53"
    and "mset (fst (permutation env (RandomState env s) (nrows df))) = mset [0..<nrows df]"
  shows "\<exists>train test.
      train_test_split env df test_size (Some s) w = (Inr (train, test), w)
    \<and> nrows test = py_ceil (float_mul test_size (float_of_nat (nrows df)))
    \<and> nrows train = nrows df - nrows test
    \<and> nrows train + nrows test = nrows df
    \<and> \<bar>int (nrows test) - round (21 * real (nrows df) / 100)\<bar> \<le> 1
    \<and> \<bar>int (nrows train) - round (79 * real (nrows df) / 100)\<bar> \<le> 1
    \<and> (\<forall>r::int. \<bar>100 * r - 21 * int (nrows df)\<bar> \<le> 50 \<longrightarrow> \<bar>int (nrows test) - r\<bar> \<le> 1)
    \<and> (\<forall>r::int. \<bar>100 * r - 79 * int (nrows df)\<bar> \<le> 50 \<longrightarrow> \<bar>int (nrows train) - r\<bar> \<le> 1)"
proof -
  define n where "n = nrows df"
  define b where "b = py_ceil (float_mul test_size (float_of_nat n))"
  define a where "a = n - b"
  let ?P = "fst (permutation env (RandomState env s) n)"
  from assms(2) have "n < 2 ^ 53" by (simp add: n_def)
  from test_count_bounds [OF this]
  have lo: "21 * n < 100 * b + 32" and hi: "100 * b < 21 * n + 118"
    by (simp_all add: b_def)
  from assms(1) have n2: "2 \<le> n" by (simp add: n_def)
  from lo hi n2 have b1: "1 \<le> b" and bn: "b < n"
    by linarith+
  then have a0: "a \<noteq> 0" and ab: "a + b = n" and an: "a < n"
    by (simp_all add: a_def)
  have vf: "validate_shuffle_split_float n test_size = Inr (a, b)"
    using bn test_size_in_range
    by (simp add: validate_shuffle_split_float_def Let_def b_def [symmetric] a_def)
  have vi: "validate_shuffle_split_int n b a = Inr (a, b)"
    using b1 bn a0 an ab by (simp add: validate_shuffle_split_int_def)
  have len: "length ?P = n"
    using assms(3) unfolding n_def by (metis length_upt mset_eq_length minus_nat.diff_0)
  have set_P: "set ?P = {0..<n}"
    using assms(3) unfolding n_def by (metis mset_eq_setD set_upt)
  have "set (take a (drop b ?P)) \<subseteq> {0..<nrows df}"
    using set_P set_take_subset [of a "drop b ?P"] set_drop_subset [of b ?P]
    by (auto simp: n_def)
  from iloc_in_range [OF this] obtain train
    where tr: "iloc df (take a (drop b ?P)) = Inr train" by blast
  have "set (take b ?P) \<subseteq> {0..<nrows df}"
    using set_P set_take_subset [of b ?P] by (auto simp: n_def)
  from iloc_in_range [OF this] obtain test
    where te: "iloc df (take b ?P) = Inr test" by blast
  have run: "train_test_split env df test_size (Some s) w = (Inr (train, test), w)"
    using vf vi tr te by (simp add: train_test_split_seeded_run n_def [symmetric])
  have nte: "nrows test = b"
    using iloc_rows(3) [OF te] len bn by simp
  have ntr: "nrows train = a"
    using iloc_rows(3) [OF tr] len ab by simp
  have tol_te: "\<bar>int b - r\<bar> \<le> 1" if "\<bar>100 * r - 21 * int n\<bar> \<le> 50" for r :: int
    using that lo hi by linarith
  have tol_tr: "\<bar>int a - r\<bar> \<le> 1" if "\<bar>100 * r - 79 * int n\<bar> \<le> 50" for r :: int
    using that lo hi ab by linarith
  have r_te: "\<bar>int b - round (21 * real n / 100)\<bar> \<le> 1"
    using tol_te [OF round_nearest_int [of 21 n]] by simp
  have r_tr: "\<bar>int a - round (79 * real n / 100)\<bar> \<le> 1"
    using tol_tr [OF round_nearest_int [of 79 n]] by simp
  from run nte ntr ab tol_te tol_tr r_te r_tr show ?thesis
    unfolding n_def [symmetric] b_def [symmetric]
    by (intro exI [of _ train] exI [of _ test]) (simp add: a_def)
qed

theorem train_test_split_sizes_witness:
  "2 \<le> nrows clean5 \<and> nrows clean5 < 2 ^ 53
   \<and> mset (fst (permutation env0 (RandomState env0 42) (nrows clean5))) = mset [0..<nrows clean5]
   \<and> (\<exists>train test.
      train_test_split env0 clean5 test_size (Some 42) w0 = (Inr (train, test), w0)
    \<and> nrows test = py_ceil (float_mul test_size (float_of_nat (nrows clean5)))
    \<and> nrows train = nrows clean5 - nrows test
    \<and> nrows train + nrows test = nrows clean5
    \<and> \<bar>int (nrows test) - round (21 * real (nrows clean5) / 100)\<bar> \<le> 1
    \<and> \<bar>int (nrows train) - round (79 * real (nrows clean5) / 100)\<bar> \<le> 1
    \<and> (\<forall>r::int. \<bar>100 * r - 21 * int (nrows clean5)\<bar> \<le> 50 \<longrightarrow> \<bar>int (nrows test) - r\<bar> \<le> 1)
    \<and> (\<forall>r::int. \<bar>100 * r - 79 * int (nrows clean5)\<bar> \<le> 50 \<longrightarrow> \<bar>int (nrows train) - r\<bar> \<le> 1))"
proof -
  have n: "nrows clean5 = 5"
    by (simp add: nrows_def clean5_def)
  have h1: "2 \<le> nrows clean5" and h2: "nrows clean5 < 2 ^ 53"
    by (simp_all add: n)
  have h3: "mset (fst (permutation env0 (RandomState env0 42) (nrows clean5))) =
      mset [0..<nrows clean5]"
    by (simp add: env0_def)
  from h1 h2 h3 train_test_split_sizes [OF h1 h2 h3, of w0] show ?thesis by blast
qed

end
